theory Spec2Isabelle
  imports Main "HOL-Library.Sublist"
begin

section \<open>Python values and string helpers used by \<^verbatim>\<open>flask_fs/storage.py\<close>\<close>

text \<open>
  Strings are lists of characters. The model keeps to ASCII text: \<open>upper\<close> and
  \<open>lower\<close> change the 26 letters and leave every other character alone, which is what
  \<^verbatim>\<open>str.upper\<close> and \<^verbatim>\<open>str.lower\<close> do on ASCII input.
\<close>

definition upper_char :: "char \<Rightarrow> char" where
  "upper_char c =
     (case map_of (zip ''abcdefghijklmnopqrstuvwxyz'' ''ABCDEFGHIJKLMNOPQRSTUVWXYZ'') c of
        Some u \<Rightarrow> u
      | None \<Rightarrow> c)"

definition lower_char :: "char \<Rightarrow> char" where
  "lower_char c =
     (case map_of (zip ''ABCDEFGHIJKLMNOPQRSTUVWXYZ'' ''abcdefghijklmnopqrstuvwxyz'') c of
        Some l \<Rightarrow> l
      | None \<Rightarrow> c)"

definition upper :: "string \<Rightarrow> string" where
  "upper s = map upper_char s"

definition lower :: "string \<Rightarrow> string" where
  "lower s = map lower_char s"

text \<open>\<^verbatim>\<open>key.startswith(p)\<close>.\<close>

definition startswith :: "string \<Rightarrow> string \<Rightarrow> bool" where
  "startswith key p = prefix p key"

text \<open>
  \<^verbatim>\<open>s.replace(old, "")\<close>: every non-overlapping occurrence of \<open>old\<close> is removed, scanning
  from the left; an empty \<open>old\<close> leaves the string as it is.
\<close>

function replace_empty :: "string \<Rightarrow> string \<Rightarrow> string" where
  "replace_empty old [] = []"
| "replace_empty old (c # cs) =
     (if old \<noteq> [] \<and> prefix old (c # cs)
      then replace_empty old (drop (length old) (c # cs))
      else c # replace_empty old cs)"
  by pat_completeness auto
termination
  by (relation "measure (\<lambda>(old, s). length s)") auto

text \<open>\<^verbatim>\<open>a in b\<close> for two strings: \<open>a\<close> occurs in \<open>b\<close> as a contiguous run.\<close>

fun str_contains :: "string \<Rightarrow> string \<Rightarrow> bool" where
  "str_contains [] a = (a = [])"
| "str_contains (c # cs) a = (prefix a (c # cs) \<or> str_contains cs a)"

text \<open>
  The values a configuration mapping holds: strings (backend names, URLs), tuples of
  strings (extension lists), booleans and \<^verbatim>\<open>None\<close>.
\<close>

datatype pyval = Str string | Tuple "string list" | Flag bool | NoneVal

text \<open>
  The exceptions the facade raises itself, and \<open>Foreign\<close> for an exception that comes
  out of a collaborator (a backend, the encryptor, the operating system) and passes
  through the facade unchanged. \<open>ConfigurationError\<close> is the kind the specification
  names for an unknown backend; \<open>Abort\<close> is what \<^verbatim>\<open>flask.abort(status)\<close> raises.
\<close>

datatype exn =
    ValueError string
  | KeyError string
  | AttributeError string
  | TypeError string
  | UnboundLocalError string
  | UnauthorizedFileType
  | FileExists "string option"
  | FileNotFound string
  | OperationNotSupported string
  | ConfigurationError string
  | Abort nat
  | Foreign string

text \<open>\<^verbatim>\<open>ext in value\<close> for a configuration value.\<close>

fun py_in :: "string \<Rightarrow> pyval \<Rightarrow> exn + bool" where
  "py_in x (Tuple xs) = Inr (x \<in> set xs)"
| "py_in x (Str s) = Inr (str_contains s x)"
| "py_in x (Flag b) = Inl (TypeError ''argument of type bool is not iterable'')"
| "py_in x NoneVal = Inl (TypeError ''argument of type NoneType is not iterable'')"

section \<open>Collaborators: contents, backends, encryptors, the operating system\<close>

text \<open>
  What \<^verbatim>\<open>write\<close> receives: in-memory data (or a path, which is a string too), or a
  file-like object, which carries the bytes a \<^verbatim>\<open>read()\<close> on it yields.
\<close>

datatype content = Data string | FileObj string

text \<open>
  What \<^verbatim>\<open>save\<close> receives: a werkzeug \<^verbatim>\<open>FileStorage\<close> with its client-declared
  filename (which may be \<^verbatim>\<open>None\<close>) and payload, or any other file or bytes.
\<close>

datatype upload = FileStorage "string option" string | Plain content

text \<open>A path prefix or upload destination: a literal, or a zero-argument callable.\<close>

datatype path_spec = Static string | Computed "unit \<Rightarrow> string"

text \<open>
  Every call the facade makes on a collaborator, in the order made. The trace is the
  observable behaviour claims about ``before delegating'' and ``never invoked'' speak of.
\<close>

datatype call =
    Exists string
  | Read string
  | ReadChunks string nat
  | Open string string
  | Write string content
  | Delete string
  | Save upload string
  | Copy string string
  | Serve string
  | EncryptFile content
  | EncryptContent string
  | DecryptEntireFile string
  | DecryptFileFromGenerator "string list"
  | IsFile string
  | OsOpen string
  | OsClose string
  | OsRemove string

text \<open>
  The encryptor attached to a backend. Each operation runs in the world \<open>'w\<close> (disk,
  randomness), may change it, and may raise (\<open>Inl\<close> a description of the exception).
  \<open>encrypt_file\<close> returns the path of the temporary encrypted file it created.
\<close>

record 'w encryptor =
  encrypt_file :: "content \<Rightarrow> 'w \<Rightarrow> (string + string) \<times> 'w"
  encrypt_content :: "string \<Rightarrow> 'w \<Rightarrow> (string + string) \<times> 'w"
  decrypt_entire_file :: "string \<Rightarrow> 'w \<Rightarrow> (string + string) \<times> 'w"
  decrypt_file_from_generator :: "string list \<Rightarrow> 'w \<Rightarrow> (string + string list) \<times> 'w"

text \<open>
  The backend capability interface, as the facade uses it. \<open>b_exists\<close> is a query
  that answers with a boolean; every other operation may change the world and may raise.
\<close>

record 'w backend =
  root :: "string option"
  encryptor :: "'w encryptor option"
  b_exists :: "string \<Rightarrow> 'w \<Rightarrow> bool"
  b_read :: "string \<Rightarrow> 'w \<Rightarrow> (string + string) \<times> 'w"
  b_read_chunks :: "string \<Rightarrow> nat \<Rightarrow> 'w \<Rightarrow> (string + string list) \<times> 'w"
  b_open :: "string \<Rightarrow> string \<Rightarrow> (string \<times> pyval) list \<Rightarrow> 'w \<Rightarrow> (string + content) \<times> 'w"
  b_write :: "string \<Rightarrow> content \<Rightarrow> 'w \<Rightarrow> (string + unit) \<times> 'w"
  b_delete :: "string \<Rightarrow> 'w \<Rightarrow> (string + unit) \<times> 'w"
  b_save :: "upload \<Rightarrow> string \<Rightarrow> 'w \<Rightarrow> (string + unit) \<times> 'w"
  b_copy :: "string \<Rightarrow> string \<Rightarrow> 'w \<Rightarrow> (string + unit) \<times> 'w"
  b_serve :: "string \<Rightarrow> 'w \<Rightarrow> (string + string) \<times> 'w"

text \<open>
  The operating-system calls of \<^verbatim>\<open>write\<close>: \<^verbatim>\<open>os.path.isfile\<close>, the builtin
  \<^verbatim>\<open>open(path, "rb")\<close> (yielding the file's bytes), \<^verbatim>\<open>stream.close()\<close> and
  \<^verbatim>\<open>os.remove\<close>.
\<close>

record 'w system =
  isfile :: "string \<Rightarrow> 'w \<Rightarrow> bool"
  os_open :: "string \<Rightarrow> 'w \<Rightarrow> (string + string) \<times> 'w"
  os_close :: "string \<Rightarrow> 'w \<Rightarrow> (string + unit) \<times> 'w"
  os_remove :: "string \<Rightarrow> 'w \<Rightarrow> (string + unit) \<times> 'w"

text \<open>
  Names the module imports from code that is not part of \<^verbatim>\<open>storage.py\<close>:
  \<^verbatim>\<open>DEFAULTS\<close>, \<^verbatim>\<open>extension\<close> and \<^verbatim>\<open>lower_extension\<close> of \<^verbatim>\<open>flask_fs.files\<close>, and
  \<^verbatim>\<open>secure_filename\<close> of werkzeug (applied to \<^verbatim>\<open>None\<close> it raises).
\<close>

record imported =
  DEFAULTS :: "string list"
  extension :: "string \<Rightarrow> string"
  lower_extension :: "string \<Rightarrow> string"
  secure_filename :: "string \<Rightarrow> string"

section \<open>Computations with a world, a trace and exceptions\<close>

type_synonym ('w, 'a) action = "'w \<times> call list \<Rightarrow> (exn + 'a) \<times> ('w \<times> call list)"

definition return :: "'a \<Rightarrow> ('w, 'a) action" where
  "return a = (\<lambda>s. (Inr a, s))"

definition raise :: "exn \<Rightarrow> ('w, 'a) action" where
  "raise e = (\<lambda>s. (Inl e, s))"

definition bind :: "('w, 'a) action \<Rightarrow> ('a \<Rightarrow> ('w, 'b) action) \<Rightarrow> ('w, 'b) action" where
  "bind m f = (\<lambda>s. case m s of (Inl e, s') \<Rightarrow> (Inl e, s') | (Inr a, s') \<Rightarrow> f a s')"

text \<open>A call on a collaborator: logged, run in the world, its exception passed on.\<close>

definition invoke :: "call \<Rightarrow> ('w \<Rightarrow> (string + 'a) \<times> 'w) \<Rightarrow> ('w, 'a) action" where
  "invoke c f =
     (\<lambda>(w, tr). case f w of
        (Inl x, w') \<Rightarrow> (Inl (Foreign x), (w', tr @ [c]))
      | (Inr a, w') \<Rightarrow> (Inr a, (w', tr @ [c])))"

text \<open>A query on a collaborator: logged, the world untouched.\<close>

definition query :: "call \<Rightarrow> ('w \<Rightarrow> 'a) \<Rightarrow> ('w, 'a) action" where
  "query c f = (\<lambda>(w, tr). (Inr (f w), (w, tr @ [c])))"

section \<open>The \<^verbatim>\<open>Storage\<close> class\<close>

text \<open>
  \<^verbatim>\<open>Config\<close> is a dictionary with attribute access: \<^verbatim>\<open>config.name\<close> raises
  \<^verbatim>\<open>AttributeError\<close> for a missing key.
\<close>

type_synonym config = "string \<rightharpoonup> pyval"

definition getattr :: "config \<Rightarrow> string \<Rightarrow> exn + pyval" where
  "getattr c name =
     (case c name of
        Some v \<Rightarrow> Inr v
      | None \<Rightarrow> Inl (AttributeError (''Unknown attribute: '' @ name)))"

definition setdefault :: "config \<Rightarrow> string \<Rightarrow> pyval \<Rightarrow> config" where
  "setdefault c k v = (case c k of None \<Rightarrow> c(k \<mapsto> v) | Some _ \<Rightarrow> c)"

text \<open>
  The attributes of a \<^verbatim>\<open>Storage\<close>. \<open>backend_name\<close> and \<open>backend_prefix\<close> do not exist
  before \<^verbatim>\<open>configure\<close> has run; \<open>backend\<close> is \<^verbatim>\<open>None\<close> until then.
\<close>

record 'w storage =
  name :: string
  extensions :: "string list"
  config :: config
  upload_to :: "path_spec option"
  backend :: "'w backend option"
  overwrite :: bool
  backend_name :: "pyval option"
  backend_prefix :: "string option"

text \<open>\<^verbatim>\<open>Storage.__init__\<close>.\<close>

definition Storage ::
  "string \<Rightarrow> string list \<Rightarrow> path_spec option \<Rightarrow> bool \<Rightarrow> 'w storage" where
  "Storage n exts up ov =
     \<lparr>name = n, extensions = exts, config = Map.empty, upload_to = up, backend = None,
      overwrite = ov, backend_name = None, backend_prefix = None\<rparr>"

definition DEFAULT_CONFIG :: "imported \<Rightarrow> (string \<times> pyval) list" where
  "DEFAULT_CONFIG im = [(''allow'', Tuple (DEFAULTS im)), (''deny'', Tuple [])]"

definition PREFIX :: "string \<Rightarrow> string" where
  "PREFIX n = n @ ''_FS_''"

definition BACKEND_PREFIX :: "string \<Rightarrow> string" where
  "BACKEND_PREFIX b = ''FS_'' @ b @ ''_''"

definition BACKEND_EXCLUDED_CONFIG :: "string list" where
  "BACKEND_EXCLUDED_CONFIG = [''BACKEND'', ''URL'', ''ROOT'']"

subsection \<open>\<^verbatim>\<open>configure\<close>\<close>

text \<open>The three loops of \<^verbatim>\<open>configure\<close>, each a left-to-right pass over a dictionary.\<close>

definition set_defaults :: "(string \<times> pyval) list \<Rightarrow> config \<Rightarrow> config" where
  "set_defaults defaults c = fold (\<lambda>(key, v) c. setdefault c key v) defaults c"

definition backend_level :: "string \<Rightarrow> (string \<times> pyval) list \<Rightarrow> config \<Rightarrow> config" where
  "backend_level bp app c =
     fold (\<lambda>(key, v) c.
            if startswith key bp \<and> key \<notin> set (map (\<lambda>k. bp @ k) BACKEND_EXCLUDED_CONFIG)
            then c(lower (replace_empty bp key) \<mapsto> v) else c)
          app c"

definition storage_level :: "string \<Rightarrow> (string \<times> pyval) list \<Rightarrow> config \<Rightarrow> config" where
  "storage_level p app c =
     fold (\<lambda>(key, v) c. if startswith key p then c(lower (replace_empty p key) \<mapsto> v) else c)
          app c"

definition unknown_backend :: "string \<Rightarrow> string" where
  "unknown_backend b = ''Unknown backend '' @ [CHR 0x22] @ b @ [CHR 0x22]"

text \<open>
  \<^verbatim>\<open>app.config.get(backend_key, app.config["FS_BACKEND"])\<close>: both arguments are
  evaluated before the call, so a missing \<^verbatim>\<open>FS_BACKEND\<close> raises \<^verbatim>\<open>KeyError\<close> even when
  the storage-level key is there.
\<close>

definition lookup_backend_name :: "(string \<times> pyval) list \<Rightarrow> string \<Rightarrow> exn + pyval" where
  "lookup_backend_name app backend_key =
     (case map_of app ''FS_BACKEND'' of
        None \<Rightarrow> Inl (KeyError ''FS_BACKEND'')
      | Some fallback \<Rightarrow>
          Inr (case map_of app backend_key of Some v \<Rightarrow> v | None \<Rightarrow> fallback))"

text \<open>
  \<^verbatim>\<open>configure(app)\<close>, with \<open>app\<close> the items of \<^verbatim>\<open>app.config\<close> in dictionary order and
  \<open>registry\<close> the \<^verbatim>\<open>BACKENDS\<close> table (name to backend class; a class takes the storage
  name and the configuration). The attributes assigned before an exception stay
  assigned, so the result is the outcome together with the storage as it is left.
  A backend name that is not a string has no \<^verbatim>\<open>upper\<close>. Loading the entry point and
  constructing the backend are taken to succeed and to touch nothing else.
\<close>

definition configure ::
  "imported \<Rightarrow> (string \<rightharpoonup> (string \<Rightarrow> config \<Rightarrow> 'w backend)) \<Rightarrow> (string \<times> pyval) list
    \<Rightarrow> 'w storage \<Rightarrow> (exn + unit) \<times> 'w storage" where
  "configure im registry app st =
     (let p = PREFIX (upper (name st));
          backend_key = p @ ''BACKEND''
      in case lookup_backend_name app backend_key of
           Inl e \<Rightarrow> (Inl e, st)
         | Inr bn \<Rightarrow>
             let st1 = st\<lparr>backend_name := Some bn\<rparr>
             in (case bn of
                  Str b \<Rightarrow>
                    let bp = BACKEND_PREFIX (upper b);
                        st2 = st1\<lparr>backend_prefix := Some bp\<rparr>;
                        c0 = set_defaults (DEFAULT_CONFIG im) Map.empty;
                        c1 = backend_level bp app c0;
                        c2 = storage_level p app c1
                    in (case registry b of
                          None \<Rightarrow> (Inl (ValueError (unknown_backend b)), st2)
                        | Some backend_class \<Rightarrow>
                            (Inr (), st2\<lparr>backend := Some (backend_class (name st) c2),
                                         config := c2\<rparr>))
                | _ \<Rightarrow> (Inl (AttributeError ''upper''), st1)))"

text \<open>Whether an outcome is the \<^verbatim>\<open>ConfigurationError\<close> the specification names.\<close>

fun is_ConfigurationError :: "exn + 'a \<Rightarrow> bool" where
  "is_ConfigurationError (Inl (ConfigurationError m)) = True"
| "is_ConfigurationError r = False"

text \<open>
  The three levels as mappings from option name to value: the seeded defaults, what the
  backend-level loop writes and what the storage-level loop writes (in each, the last
  key to produce a name wins, as it does in the loop).
\<close>

definition default_settings :: "imported \<Rightarrow> config" where
  "default_settings im = map_of (DEFAULT_CONFIG im)"

definition backend_settings :: "string \<Rightarrow> (string \<times> pyval) list \<Rightarrow> config" where
  "backend_settings bp app =
     map_of (rev (map (\<lambda>(key, v). (lower (replace_empty bp key), v))
       (filter (\<lambda>(key, v). startswith key bp
                  \<and> key \<notin> set (map (\<lambda>k. bp @ k) BACKEND_EXCLUDED_CONFIG)) app)))"

definition storage_settings :: "string \<Rightarrow> (string \<times> pyval) list \<Rightarrow> config" where
  "storage_settings p app =
     map_of (rev (map (\<lambda>(key, v). (lower (replace_empty p key), v))
       (filter (\<lambda>(key, v). startswith key p) app)))"

subsection \<open>File-type validation\<close>

definition extension_allowed :: "'w storage \<Rightarrow> string \<Rightarrow> exn + bool" where
  "extension_allowed st ext =
     (case getattr (config st) ''allow'' of
        Inl e \<Rightarrow> Inl e
      | Inr allow \<Rightarrow>
          (case py_in ext allow of
             Inl e \<Rightarrow> Inl e
           | Inr True \<Rightarrow> Inr True
           | Inr False \<Rightarrow>
               if ext \<in> set (extensions st)
               then (case getattr (config st) ''deny'' of
                       Inl e \<Rightarrow> Inl e
                     | Inr deny \<Rightarrow>
                         (case py_in ext deny of Inl e \<Rightarrow> Inl e | Inr b \<Rightarrow> Inr (\<not> b)))
               else Inr False))"

definition file_allowed :: "imported \<Rightarrow> 'w storage \<Rightarrow> upload \<Rightarrow> string \<Rightarrow> exn + bool" where
  "file_allowed im st file basename = extension_allowed st (extension im basename)"

subsection \<open>Reading, opening, serving, copying\<close>

text \<open>
  \<^verbatim>\<open>self.backend.attr\<close>: on a storage that was not configured the backend is
  \<^verbatim>\<open>None\<close> and the attribute access raises.
\<close>

definition with_backend ::
  "'w storage \<Rightarrow> string \<Rightarrow> ('w backend \<Rightarrow> ('w, 'a) action) \<Rightarrow> ('w, 'a) action" where
  "with_backend st attr f =
     (case backend st of None \<Rightarrow> raise (AttributeError attr) | Some b \<Rightarrow> f b)"

definition lift :: "exn + 'a \<Rightarrow> ('w, 'a) action" where
  "lift r = (case r of Inl e \<Rightarrow> raise e | Inr a \<Rightarrow> return a)"

definition exists :: "'w storage \<Rightarrow> string \<Rightarrow> ('w, bool) action" where
  "exists st filename =
     with_backend st ''exists'' (\<lambda>b. query (Exists filename) (b_exists b filename))"

definition read :: "'w storage \<Rightarrow> string \<Rightarrow> ('w, string) action" where
  "read st filename =
     with_backend st ''exists'' (\<lambda>b.
       bind (query (Exists filename) (b_exists b filename)) (\<lambda>found.
         if \<not> found then raise (FileNotFound filename)
         else bind (invoke (Read filename) (b_read b filename)) (\<lambda>readed_content.
           case encryptor b of
             Some enc \<Rightarrow>
               invoke (DecryptEntireFile readed_content)
                 (decrypt_entire_file enc readed_content)
           | None \<Rightarrow> return readed_content)))"

definition read_chunks :: "'w storage \<Rightarrow> string \<Rightarrow> nat \<Rightarrow> ('w, string list) action" where
  "read_chunks st filename chunk_size =
     with_backend st ''exists'' (\<lambda>b.
       bind (query (Exists filename) (b_exists b filename)) (\<lambda>found.
         if \<not> found then raise (FileNotFound filename)
         else bind (invoke (ReadChunks filename chunk_size) (b_read_chunks b filename chunk_size))
           (\<lambda>generator.
             case encryptor b of
               Some enc \<Rightarrow>
                 invoke (DecryptFileFromGenerator generator)
                   (decrypt_file_from_generator enc generator)
             | None \<Rightarrow> return generator)))"

text \<open>\<^verbatim>\<open>Storage.open(filename, mode, **kwargs)\<close>; \<^verbatim>\<open>"r" in mode\<close> on a string mode.\<close>

definition open_storage ::
  "'w storage \<Rightarrow> string \<Rightarrow> string \<Rightarrow> (string \<times> pyval) list \<Rightarrow> ('w, content) action" where
  "open_storage st filename mode kwargs =
     bind (if str_contains mode ''r''
           then bind (exists st filename) (\<lambda>found.
                  if \<not> found then raise (FileNotFound filename) else return ())
           else return ())
       (\<lambda>_. with_backend st ''open'' (\<lambda>b.
          invoke (Open filename mode) (b_open b filename mode kwargs)))"

definition serve :: "'w storage \<Rightarrow> string \<Rightarrow> ('w, string) action" where
  "serve st filename =
     bind (exists st filename) (\<lambda>found.
       if \<not> found then raise (Abort 404)
       else with_backend st ''serve'' (\<lambda>b. invoke (Serve filename) (b_serve b filename)))"

definition copy :: "'w storage \<Rightarrow> string \<Rightarrow> string \<Rightarrow> ('w, unit) action" where
  "copy st src dst =
     bind (exists st src) (\<lambda>found.
       if \<not> found then raise (FileNotFound src)
       else with_backend st ''copy'' (\<lambda>b. invoke (Copy src dst) (b_copy b src dst)))"

definition delete :: "'w storage \<Rightarrow> string \<Rightarrow> ('w, unit) action" where
  "delete st filename =
     with_backend st ''delete'' (\<lambda>b. invoke (Delete filename) (b_delete b filename))"

subsection \<open>\<^verbatim>\<open>write\<close>\<close>

text \<open>
  The \<^verbatim>\<open>try\<close>/\<^verbatim>\<open>finally\<close> of the encrypted stream branch. \<^verbatim>\<open>read_stream\<close> is assigned
  inside the \<^verbatim>\<open>try\<close>: when \<^verbatim>\<open>open\<close> raises, the \<^verbatim>\<open>finally\<close> block finds the name
  unbound, \<^verbatim>\<open>read_stream.close()\<close> raises \<^verbatim>\<open>UnboundLocalError\<close>, and
  \<^verbatim>\<open>os.remove\<close> is not reached. An exception of the \<^verbatim>\<open>finally\<close> block replaces the
  outcome of the \<^verbatim>\<open>try\<close> block; otherwise that outcome stands.
\<close>

definition write_encrypted_file ::
  "'w system \<Rightarrow> 'w backend \<Rightarrow> 'w encryptor \<Rightarrow> string \<Rightarrow> content \<Rightarrow> ('w, unit) action" where
  "write_encrypted_file sys b enc filename content =
     bind (invoke (EncryptFile content) (encrypt_file enc content)) (\<lambda>encrypted_content_path s.
       case invoke (OsOpen encrypted_content_path) (os_open sys encrypted_content_path) s of
         (Inl e, s1) \<Rightarrow> (Inl (UnboundLocalError ''read_stream''), s1)
       | (Inr read_stream, s1) \<Rightarrow>
           (case invoke (Write filename (FileObj read_stream))
                   (b_write b filename (FileObj read_stream)) s1 of
              (outcome, s2) \<Rightarrow>
                (case bind (invoke (OsClose encrypted_content_path)
                              (os_close sys encrypted_content_path))
                        (\<lambda>_. invoke (OsRemove encrypted_content_path)
                              (os_remove sys encrypted_content_path)) s2 of
                   (Inl e, s3) \<Rightarrow> (Inl e, s3)
                 | (Inr _, s3) \<Rightarrow> (outcome, s3))))"

definition write_storage ::
  "'w system \<Rightarrow> 'w storage \<Rightarrow> string \<Rightarrow> content \<Rightarrow> bool \<Rightarrow> ('w, unit) action" where
  "write_storage sys st filename content overwrite_arg =
     bind (if \<not> overwrite st \<and> \<not> overwrite_arg
           then with_backend st ''exists'' (\<lambda>b.
                  bind (query (Exists filename) (b_exists b filename)) (\<lambda>found.
                    if found then raise (FileExists None) else return ()))
           else return ())
       (\<lambda>_. with_backend st ''encryptor'' (\<lambda>b.
          case encryptor b of
            Some enc \<Rightarrow>
              (case content of
                 FileObj d \<Rightarrow> write_encrypted_file sys b enc filename content
               | Data d \<Rightarrow>
                   bind (query (IsFile d) (isfile sys d)) (\<lambda>is_file.
                     if is_file then write_encrypted_file sys b enc filename content
                     else bind (invoke (EncryptContent d) (encrypt_content enc d)) (\<lambda>encrypted.
                            invoke (Write filename (Data encrypted))
                              (b_write b filename (Data encrypted)))))
          | None \<Rightarrow> invoke (Write filename content) (b_write b filename content)))"

subsection \<open>\<^verbatim>\<open>save\<close>\<close>

text \<open>Truthiness of an optional string and of an optional path specification.\<close>

definition falsy :: "string option \<Rightarrow> bool" where
  "falsy s = (case s of None \<Rightarrow> True | Some t \<Rightarrow> t = [])"

fun given :: "path_spec option \<Rightarrow> bool" where
  "given None = False"
| "given (Some (Static s)) = (s \<noteq> [])"
| "given (Some (Computed f)) = True"

text \<open>\<^verbatim>\<open>p() if callable(p) else p\<close>.\<close>

fun resolve :: "path_spec \<Rightarrow> string" where
  "resolve (Static s) = s"
| "resolve (Computed f) = f ()"

definition prepend :: "path_spec option \<Rightarrow> string \<Rightarrow> string" where
  "prepend spec filename =
     (case spec of
        Some p \<Rightarrow> if given spec then resolve p @ ''/'' @ filename else filename
      | None \<Rightarrow> filename)"

definition save ::
  "imported \<Rightarrow> 'w storage \<Rightarrow> upload \<Rightarrow> string option \<Rightarrow> path_spec option \<Rightarrow> bool option
     \<Rightarrow> ('w, string) action" where
  "save im st file_or_wfs filename prefix_arg overwrite_arg =
     bind (case file_or_wfs of
             FileStorage client payload \<Rightarrow>
               if falsy filename
               then (case client of
                       None \<Rightarrow> raise (TypeError ''secure_filename(None)'')
                     | Some n \<Rightarrow> return (Some (lower_extension im (secure_filename im n))))
               else return filename
           | Plain c \<Rightarrow> return filename)
       (\<lambda>filename1.
          case filename1 of
            None \<Rightarrow> raise (ValueError ''filename is required'')
          | Some fn \<Rightarrow>
              if fn = [] then raise (ValueError ''filename is required'')
              else bind (lift (file_allowed im st file_or_wfs fn)) (\<lambda>allowed.
                if \<not> allowed then raise UnauthorizedFileType
                else
                  let fn1 = prepend prefix_arg fn;
                      fn2 = prepend (upload_to st) fn1;
                      ov = (case overwrite_arg of None \<Rightarrow> overwrite st | Some ov' \<Rightarrow> ov')
                  in bind (if \<not> ov
                           then bind (exists st fn2) (\<lambda>found.
                                  if found then raise (FileExists (Some fn2)) else return ())
                           else return ())
                       (\<lambda>_. bind (with_backend st ''save'' (\<lambda>b.
                                     invoke (Save file_or_wfs fn2) (b_save b file_or_wfs fn2)))
                              (\<lambda>_. return fn2))))"

section \<open>Running an operation\<close>

text \<open>
  An operation run from a world with an empty trace: its outcome, the world it leaves
  and the calls it made on its collaborators.
\<close>

definition outcome :: "('w, 'a) action \<Rightarrow> 'w \<Rightarrow> exn + 'a" where
  "outcome m w = fst (m (w, []))"

definition world_after :: "('w, 'a) action \<Rightarrow> 'w \<Rightarrow> 'w" where
  "world_after m w = fst (snd (m (w, [])))"

definition calls :: "('w, 'a) action \<Rightarrow> 'w \<Rightarrow> call list" where
  "calls m w = snd (snd (m (w, [])))"

section \<open>Imported helpers\<close>

text \<open>
  Modelled from the spec: \<^verbatim>\<open>flask_fs.files.extension\<close> is not among the sources. The
  specification speaks of ``the candidate filename's extension'', an extension string
  ``without leading dot'': the text after the last dot, empty when there is no dot.
\<close>

definition extension_spec :: "string \<Rightarrow> string" where
  "extension_spec filename =
     (if CHR ''.'' \<in> set filename then rev (takeWhile (\<lambda>c. c \<noteq> CHR ''.'') (rev filename))
      else [])"

text \<open>
  Modelled from the spec: \<^verbatim>\<open>flask_fs.files.lower_extension\<close> is not among the sources.
  The specification: ``lower-case the extension only (basename case preserved)''.
\<close>

definition lower_extension_spec :: "string \<Rightarrow> string" where
  "lower_extension_spec filename =
     (if CHR ''.'' \<in> set filename
      then rev (dropWhile (\<lambda>c. c \<noteq> CHR ''.'') (rev filename)) @ lower (extension_spec filename)
      else filename)"

text \<open>
  Modelled from the spec: \<^verbatim>\<open>secure_filename\<close> belongs to werkzeug, not to the sources.
  The specification: ``strip directory components and unsafe characters''. The model
  follows werkzeug on ASCII input and a POSIX system: path separators become blanks,
  blank-separated words are joined with underscores, every character outside
  \<^verbatim>\<open>[A-Za-z0-9_.-]\<close> is dropped, and leading and trailing dots and underscores are
  stripped.
\<close>

definition is_space :: "char \<Rightarrow> bool" where
  "is_space c = (let n = (of_char c :: nat) in (9 \<le> n \<and> n \<le> 13) \<or> (28 \<le> n \<and> n \<le> 32))"

fun split_words :: "string \<Rightarrow> string \<Rightarrow> string list" where
  "split_words cur [] = (if cur = [] then [] else [cur])"
| "split_words cur (c # cs) =
     (if is_space c then (if cur = [] then split_words [] cs else cur # split_words [] cs)
      else split_words (cur @ [c]) cs)"

fun join :: "string \<Rightarrow> string list \<Rightarrow> string" where
  "join sep [] = []"
| "join sep [x] = x"
| "join sep (x # y # ys) = x @ sep @ join sep (y # ys)"

definition filename_safe_char :: "char \<Rightarrow> bool" where
  "filename_safe_char c =
     (let n = (of_char c :: nat)
      in (65 \<le> n \<and> n \<le> 90) \<or> (97 \<le> n \<and> n \<le> 122) \<or> (48 \<le> n \<and> n \<le> 57)
         \<or> c = CHR ''_'' \<or> c = CHR ''.'' \<or> c = CHR ''-'')"

definition strip_chars :: "string \<Rightarrow> string \<Rightarrow> string" where
  "strip_chars cs s =
     rev (dropWhile (\<lambda>c. c \<in> set cs) (rev (dropWhile (\<lambda>c. c \<in> set cs) s)))"

definition secure_filename_spec :: "string \<Rightarrow> string" where
  "secure_filename_spec filename =
     strip_chars ''._''
       (filter filename_safe_char
          (join ''_'' (split_words [] (map (\<lambda>c. if c = CHR ''/'' then CHR '' '' else c) filename))))"

text \<open>
  The imported names, with the helpers above and the default extensions (the constant
  \<^verbatim>\<open>flask_fs.files.DEFAULTS\<close>, not among the sources) as a parameter.
\<close>

definition imported_spec :: "string list \<Rightarrow> imported" where
  "imported_spec defaults =
     \<lparr>DEFAULTS = defaults, extension = extension_spec,
      lower_extension = lower_extension_spec, secure_filename = secure_filename_spec\<rparr>"

section \<open>An in-memory world\<close>

text \<open>
  A small world to run the facade in: the files a backend holds, the local disk with
  its temporary files, and the number of file descriptors the process may still open.
\<close>

record mem =
  files :: "string \<rightharpoonup> string"
  disk :: "string \<rightharpoonup> string"
  fds :: nat

fun bytes_of :: "content \<Rightarrow> string" where
  "bytes_of (Data d) = d"
| "bytes_of (FileObj d) = d"

fun payload_of :: "upload \<Rightarrow> string" where
  "payload_of (FileStorage client d) = d"
| "payload_of (Plain c) = bytes_of c"

text \<open>A toy cipher: the bytes reversed. The temporary file is \<^verbatim>\<open>/tmp/enc\<close>.\<close>

definition mem_encryptor :: "mem encryptor" where
  "mem_encryptor =
     \<lparr>encrypt_file = (\<lambda>c w.
        case (case c of FileObj d \<Rightarrow> Some d | Data path \<Rightarrow> disk w path) of
          None \<Rightarrow> (Inl ''FileNotFoundError'', w)
        | Some d \<Rightarrow> (Inr ''/tmp/enc'', w\<lparr>disk := (disk w)(''/tmp/enc'' \<mapsto> rev d)\<rparr>)),
      encrypt_content = (\<lambda>d w. (Inr (rev d), w)),
      decrypt_entire_file = (\<lambda>d w. (Inr (rev d), w)),
      decrypt_file_from_generator = (\<lambda>g w. (Inr (rev (map rev g)), w))\<rparr>"

definition mem_backend :: "mem encryptor option \<Rightarrow> string \<Rightarrow> config \<Rightarrow> mem backend" where
  "mem_backend enc storage_name cfg =
     \<lparr>root = None,
      encryptor = enc,
      b_exists = (\<lambda>f w. files w f \<noteq> None),
      b_read = (\<lambda>f w. case files w f of None \<Rightarrow> (Inl ''missing'', w) | Some d \<Rightarrow> (Inr d, w)),
      b_read_chunks = (\<lambda>f n w.
        case files w f of None \<Rightarrow> (Inl ''missing'', w) | Some d \<Rightarrow> (Inr [d], w)),
      b_open = (\<lambda>f mode kwargs w.
        case files w f of None \<Rightarrow> (Inr (FileObj []), w) | Some d \<Rightarrow> (Inr (FileObj d), w)),
      b_write = (\<lambda>f c w. (Inr (), w\<lparr>files := (files w)(f \<mapsto> bytes_of c)\<rparr>)),
      b_delete = (\<lambda>f w. (Inr (), w\<lparr>files := (files w)(f := None)\<rparr>)),
      b_save = (\<lambda>u f w. (Inr (), w\<lparr>files := (files w)(f \<mapsto> payload_of u)\<rparr>)),
      b_copy = (\<lambda>src dst w.
        case files w src of
          None \<Rightarrow> (Inl ''missing'', w)
        | Some d \<Rightarrow> (Inr (), w\<lparr>files := (files w)(dst \<mapsto> d)\<rparr>)),
      b_serve = (\<lambda>f w. case files w f of None \<Rightarrow> (Inl ''missing'', w) | Some d \<Rightarrow> (Inr d, w))\<rparr>"

definition mem_system :: "mem system" where
  "mem_system =
     \<lparr>isfile = (\<lambda>path w. disk w path \<noteq> None),
      os_open = (\<lambda>path w.
        if fds w = 0 then (Inl ''OSError: too many open files'', w)
        else (case disk w path of
                None \<Rightarrow> (Inl ''FileNotFoundError'', w)
              | Some d \<Rightarrow> (Inr d, w\<lparr>fds := fds w - 1\<rparr>))),
      os_close = (\<lambda>path w. (Inr (), w\<lparr>fds := fds w + 1\<rparr>)),
      os_remove = (\<lambda>path w.
        case disk w path of
          None \<Rightarrow> (Inl ''FileNotFoundError'', w)
        | Some d \<Rightarrow> (Inr (), w\<lparr>disk := (disk w)(path := None)\<rparr>))\<rparr>"

text \<open>The world with one stored file, an empty disk and descriptors to spare.\<close>

definition mem0 :: mem where
  "mem0 = \<lparr>files = [''kept.txt'' \<mapsto> ''old''], disk = Map.empty, fds = 8\<rparr>"

text \<open>A configured storage over the in-memory backend.\<close>

definition mem_storage ::
  "mem encryptor option \<Rightarrow> string list \<Rightarrow> config \<Rightarrow> bool \<Rightarrow> mem storage" where
  "mem_storage enc exts cfg ov =
     \<lparr>name = ''files'', extensions = exts, config = cfg, upload_to = None,
      backend = Some (mem_backend enc ''files'' cfg), overwrite = ov,
      backend_name = Some (Str ''mem''), backend_prefix = Some ''FS_MEM_''\<rparr>"

section \<open>Proof tools\<close>

lemmas action_defs =
  outcome_def world_after_def calls_def return_def raise_def bind_def invoke_def query_def
  with_backend_def lift_def exists_def

lemmas mem_defs = mem_storage_def mem_backend_def mem_system_def mem_encryptor_def mem0_def

section \<open>File-type validation\<close>

text \<open>
  Claim C1. For every extension string, \<^verbatim>\<open>extension_allowed\<close> answers true exactly when
  the extension is in the configuration's allow set, or is among the storage's declared
  extensions and not in the deny set (the allow and deny entries of the effective
  configuration being tuples). Consequently a storage with \<^verbatim>\<open>allow=()\<close>, declared
  extensions \<^verbatim>\<open>{"png"}\<close> and \<^verbatim>\<open>deny=("png",)\<close> rejects saving \<^verbatim>\<open>a.png\<close> with
  \<^verbatim>\<open>UnauthorizedFileType\<close>, with no call made on the backend and the world as it was;
  both with the filename given and with a \<^verbatim>\<open>FileStorage\<close> that declares it.
\<close>

theorem extension_allowed_formula:
  assumes "config st ''allow'' = Some (Tuple allow)"
      and "config st ''deny'' = Some (Tuple deny)"
  shows "extension_allowed st ext
           = Inr (ext \<in> set allow \<or> (ext \<in> set (extensions st) \<and> ext \<notin> set deny))
       \<and> (allow = [] \<and> extensions st = [''png''] \<and> deny = [''png'']
            \<and> extension im ''a.png'' = ''png'' \<longrightarrow>
            outcome (save im st src (Some ''a.png'') pre ov) w = Inl UnauthorizedFileType
          \<and> calls (save im st src (Some ''a.png'') pre ov) w = []
          \<and> world_after (save im st src (Some ''a.png'') pre ov) w = w)
       \<and> (allow = [] \<and> extensions st = [''png''] \<and> deny = [''png'']
            \<and> extension im ''a.png'' = ''png''
            \<and> lower_extension im (secure_filename im ''a.png'') = ''a.png'' \<longrightarrow>
            outcome (save im st (FileStorage (Some ''a.png'') payload) None pre ov) w
              = Inl UnauthorizedFileType
          \<and> calls (save im st (FileStorage (Some ''a.png'') payload) None pre ov) w = []
          \<and> world_after (save im st (FileStorage (Some ''a.png'') payload) None pre ov) w = w)"
  using assms
  by (auto simp: extension_allowed_def file_allowed_def getattr_def save_def action_defs falsy_def
           split: prod.splits sum.splits option.splits upload.splits bool.splits)

theorem extension_allowed_formula_witness:
  "extension_allowed
     (mem_storage None [''png''] [''allow'' \<mapsto> Tuple [], ''deny'' \<mapsto> Tuple [''png'']] False)
     ''png'' = Inr False
   \<and> outcome (save (imported_spec [])
        (mem_storage None [''png''] [''allow'' \<mapsto> Tuple [], ''deny'' \<mapsto> Tuple [''png'']] False)
        (Plain (Data ''image'')) (Some ''a.png'') None None) mem0 = Inl UnauthorizedFileType
   \<and> calls (save (imported_spec [])
        (mem_storage None [''png''] [''allow'' \<mapsto> Tuple [], ''deny'' \<mapsto> Tuple [''png'']] False)
        (FileStorage (Some ''a.png'') ''image'') None None None) mem0 = []"
  using extension_allowed_formula
          [where st = "mem_storage None [''png'']
                         [''allow'' \<mapsto> Tuple [], ''deny'' \<mapsto> Tuple [''png'']] False"
             and allow = "[]" and deny = "[''png'']" and ext = "''png''"
             and im = "imported_spec []" and src = "Plain (Data ''image'')"
             and pre = None and ov = None and w = mem0 and payload = "''image''"]
  by (simp add: mem_storage_def imported_spec_def extension_spec_def lower_extension_spec_def
        secure_filename_spec_def strip_chars_def filename_safe_char_def is_space_def
        lower_def lower_char_def)

section \<open>The save pipeline\<close>

lemma save_outcomes:
  "(\<exists>e tr. save im st src fn pre ov (w, []) = (Inl e, (w, tr)) \<and> (\<forall>u p. Save u p \<notin> set tr))
   \<or> (\<exists>x s. save im st src fn pre ov (w, []) = (Inl (Foreign x), s))
   \<or> (\<exists>p s. save im st src fn pre ov (w, []) = (Inr p, s))"
  by (simp add: save_def action_defs Let_def
           split: prod.split sum.split option.split upload.split)

text \<open>
  Claim C3. A \<^verbatim>\<open>save\<close> that fails with the \<^verbatim>\<open>ValueError\<close> for a missing filename, with
  \<^verbatim>\<open>UnauthorizedFileType\<close> or with \<^verbatim>\<open>FileExists\<close> mutates nothing: the world it leaves
  is the world it started in (so the backend's content and listing are unchanged), and
  \<^verbatim>\<open>backend.save\<close> is not among the calls it made.
\<close>

theorem rejected_save_leaves_backend_alone:
  assumes "outcome (save im st src fn pre ov) w = Inl e"
      and "(\<exists>m. e = ValueError m) \<or> e = UnauthorizedFileType \<or> (\<exists>p. e = FileExists p)"
  shows "world_after (save im st src fn pre ov) w = w
       \<and> (\<forall>u p. Save u p \<notin> set (calls (save im st src fn pre ov) w))"
  using assms save_outcomes [of im st src fn pre ov w]
  by (auto simp: outcome_def world_after_def calls_def)

theorem rejected_save_leaves_backend_alone_witness:
  "outcome (save (imported_spec []) (mem_storage None [] [''allow'' \<mapsto> Tuple [''txt''], ''deny'' \<mapsto> Tuple []] False)
      (Plain (Data ''new'')) (Some ''kept.txt'') None None) mem0
     = Inl (FileExists (Some ''kept.txt''))
   \<and> world_after (save (imported_spec []) (mem_storage None [] [''allow'' \<mapsto> Tuple [''txt''], ''deny'' \<mapsto> Tuple []] False)
      (Plain (Data ''new'')) (Some ''kept.txt'') None None) mem0 = mem0
   \<and> outcome (save (imported_spec []) (mem_storage None [] [''allow'' \<mapsto> Tuple [''txt''], ''deny'' \<mapsto> Tuple []] False)
      (Plain (Data ''new'')) (Some ''tool.exe'') None None) mem0
     = Inl UnauthorizedFileType
   \<and> world_after (save (imported_spec []) (mem_storage None [] [''allow'' \<mapsto> Tuple [''txt''], ''deny'' \<mapsto> Tuple []] False)
      (Plain (Data ''new'')) (Some ''tool.exe'') None None) mem0 = mem0
   \<and> outcome (save (imported_spec []) (mem_storage None [] [''allow'' \<mapsto> Tuple [''txt''], ''deny'' \<mapsto> Tuple []] False)
      (Plain (Data ''new'')) None None None) mem0
     = Inl (ValueError ''filename is required'')
   \<and> world_after (save (imported_spec []) (mem_storage None [] [''allow'' \<mapsto> Tuple [''txt''], ''deny'' \<mapsto> Tuple []] False)
      (Plain (Data ''new'')) None None None) mem0 = mem0"
proof -
  let ?st = "mem_storage None [] [''allow'' \<mapsto> Tuple [''txt''], ''deny'' \<mapsto> Tuple []] False"
  let ?im = "imported_spec []"
  let ?src = "Plain (Data ''new'')"
  have a: "outcome (save ?im ?st ?src (Some ''kept.txt'') None None) mem0
             = Inl (FileExists (Some ''kept.txt''))"
    by (simp add: save_def action_defs mem_defs falsy_def file_allowed_def extension_allowed_def
          getattr_def imported_spec_def extension_spec_def prepend_def Let_def)
  have b: "outcome (save ?im ?st ?src (Some ''tool.exe'') None None) mem0 = Inl UnauthorizedFileType"
    by (simp add: save_def action_defs mem_defs falsy_def file_allowed_def extension_allowed_def
          getattr_def imported_spec_def extension_spec_def prepend_def Let_def)
  have c: "outcome (save ?im ?st ?src None None None) mem0 = Inl (ValueError ''filename is required'')"
    by (simp add: save_def action_defs)
  show ?thesis
    using rejected_save_leaves_backend_alone [OF a] rejected_save_leaves_backend_alone [OF b]
          rejected_save_leaves_backend_alone [OF c] a b c
    by simp
qed

section \<open>Reading, opening, copying, serving\<close>

lemma read_checks:
  assumes "backend st = Some b"
  shows "((outcome (read st f) w = Inl (FileNotFound f)) = (\<not> b_exists b f w))
       \<and> take 2 (calls (read st f) w)
           = (if b_exists b f w then [Exists f, Read f] else [Exists f])
       \<and> (\<not> b_exists b f w \<longrightarrow>
            calls (read st f) w = [Exists f] \<and> world_after (read st f) w = w)
       \<and> (b_exists b f w \<and> b_read b f w = (Inl x, w1) \<longrightarrow>
            outcome (read st f) w = Inl (Foreign x)
          \<and> world_after (read st f) w = w1
          \<and> calls (read st f) w = [Exists f, Read f])
       \<and> (b_exists b f w \<and> b_read b f w = (Inr d, w1) \<and> encryptor b = None \<longrightarrow>
            outcome (read st f) w = Inr d
          \<and> world_after (read st f) w = w1
          \<and> calls (read st f) w = [Exists f, Read f])
       \<and> (b_exists b f w \<and> b_read b f w = (Inr d, w1) \<and> encryptor b = Some enc \<longrightarrow>
            outcome (read st f) w = map_sum Foreign id (fst (decrypt_entire_file enc d w1))
          \<and> world_after (read st f) w = snd (decrypt_entire_file enc d w1)
          \<and> calls (read st f) w = [Exists f, Read f, DecryptEntireFile d])"
  using assms
  by (auto simp: read_def action_defs split: prod.splits sum.splits option.splits)

lemma read_chunks_checks:
  assumes "backend st = Some b"
  shows "((outcome (read_chunks st f n) w = Inl (FileNotFound f)) = (\<not> b_exists b f w))
       \<and> take 2 (calls (read_chunks st f n) w)
           = (if b_exists b f w then [Exists f, ReadChunks f n] else [Exists f])
       \<and> (\<not> b_exists b f w \<longrightarrow>
            calls (read_chunks st f n) w = [Exists f] \<and> world_after (read_chunks st f n) w = w)
       \<and> (b_exists b f w \<and> b_read_chunks b f n w = (Inl x, w1) \<longrightarrow>
            outcome (read_chunks st f n) w = Inl (Foreign x)
          \<and> world_after (read_chunks st f n) w = w1
          \<and> calls (read_chunks st f n) w = [Exists f, ReadChunks f n])
       \<and> (b_exists b f w \<and> b_read_chunks b f n w = (Inr g, w1) \<and> encryptor b = None \<longrightarrow>
            outcome (read_chunks st f n) w = Inr g
          \<and> world_after (read_chunks st f n) w = w1
          \<and> calls (read_chunks st f n) w = [Exists f, ReadChunks f n])
       \<and> (b_exists b f w \<and> b_read_chunks b f n w = (Inr g, w1) \<and> encryptor b = Some enc \<longrightarrow>
            outcome (read_chunks st f n) w
              = map_sum Foreign id (fst (decrypt_file_from_generator enc g w1))
          \<and> world_after (read_chunks st f n) w = snd (decrypt_file_from_generator enc g w1)
          \<and> calls (read_chunks st f n) w
              = [Exists f, ReadChunks f n, DecryptFileFromGenerator g])"
  using assms
  by (auto simp: read_chunks_def action_defs split: prod.splits sum.splits option.splits)

lemma open_checks:
  assumes "backend st = Some b"
  shows "(str_contains mode ''r'' \<longrightarrow>
            ((outcome (open_storage st f mode kw) w = Inl (FileNotFound f)) = (\<not> b_exists b f w))
          \<and> calls (open_storage st f mode kw) w
              = (if b_exists b f w then [Exists f, Open f mode] else [Exists f]))
       \<and> (str_contains mode ''r'' \<and> \<not> b_exists b f w \<longrightarrow>
            world_after (open_storage st f mode kw) w = w)
       \<and> (str_contains mode ''r'' \<and> b_exists b f w \<longrightarrow>
            outcome (open_storage st f mode kw) w = map_sum Foreign id (fst (b_open b f mode kw w))
          \<and> world_after (open_storage st f mode kw) w = snd (b_open b f mode kw w))
       \<and> (\<not> str_contains mode ''r'' \<longrightarrow>
            outcome (open_storage st f mode kw) w = map_sum Foreign id (fst (b_open b f mode kw w))
          \<and> world_after (open_storage st f mode kw) w = snd (b_open b f mode kw w)
          \<and> calls (open_storage st f mode kw) w = [Open f mode])"
  using assms
  by (auto simp: open_storage_def action_defs split: prod.splits sum.splits)

lemma copy_checks:
  assumes "backend st = Some b"
  shows "((outcome (copy st f dst) w = Inl (FileNotFound f)) = (\<not> b_exists b f w))
       \<and> calls (copy st f dst) w
           = (if b_exists b f w then [Exists f, Copy f dst] else [Exists f])
       \<and> (\<not> b_exists b f w \<longrightarrow> world_after (copy st f dst) w = w)
       \<and> (b_exists b f w \<longrightarrow>
            outcome (copy st f dst) w = map_sum Foreign id (fst (b_copy b f dst w))
          \<and> world_after (copy st f dst) w = snd (b_copy b f dst w))"
  using assms
  by (auto simp: copy_def action_defs split: prod.splits sum.splits)

text \<open>
  Claim C4. On a configured storage, \<^verbatim>\<open>read\<close>, \<^verbatim>\<open>read_chunks\<close> and \<^verbatim>\<open>open\<close> with a mode
  containing \<^verbatim>\<open>r\<close> raise \<^verbatim>\<open>FileNotFound\<close> exactly when the backend reports that the file
  does not exist; the existence query is the first call made. On a missing file it is
  the only call and the world is left as it was. On an existing file the backend's
  operation follows the query, and the outcome and the world are the backend's (passed
  through the encryptor's decryption for \<^verbatim>\<open>read\<close> and \<^verbatim>\<open>read_chunks\<close> when one is
  configured). \<^verbatim>\<open>copy\<close> raises \<^verbatim>\<open>FileNotFound\<close> exactly when the source does not exist,
  leaving the world as it was, and otherwise calls the backend's copy after the check,
  with the backend's outcome and world. Without \<^verbatim>\<open>r\<close> in the mode, \<^verbatim>\<open>open\<close> delegates
  with no check.
\<close>

theorem read_open_copy_check_existence_first:
  assumes "backend st = Some b"
  shows "((outcome (read st f) w = Inl (FileNotFound f)) = (\<not> b_exists b f w))
       \<and> take 2 (calls (read st f) w)
           = (if b_exists b f w then [Exists f, Read f] else [Exists f])
       \<and> (\<not> b_exists b f w \<longrightarrow>
            calls (read st f) w = [Exists f] \<and> world_after (read st f) w = w)
       \<and> (b_exists b f w \<and> b_read b f w = (Inl x, w1) \<longrightarrow>
            outcome (read st f) w = Inl (Foreign x)
          \<and> world_after (read st f) w = w1
          \<and> calls (read st f) w = [Exists f, Read f])
       \<and> (b_exists b f w \<and> b_read b f w = (Inr d, w1) \<and> encryptor b = None \<longrightarrow>
            outcome (read st f) w = Inr d
          \<and> world_after (read st f) w = w1
          \<and> calls (read st f) w = [Exists f, Read f])
       \<and> (b_exists b f w \<and> b_read b f w = (Inr d, w1) \<and> encryptor b = Some enc \<longrightarrow>
            outcome (read st f) w = map_sum Foreign id (fst (decrypt_entire_file enc d w1))
          \<and> world_after (read st f) w = snd (decrypt_entire_file enc d w1)
          \<and> calls (read st f) w = [Exists f, Read f, DecryptEntireFile d])
       \<and> ((outcome (read_chunks st f n) w = Inl (FileNotFound f)) = (\<not> b_exists b f w))
       \<and> take 2 (calls (read_chunks st f n) w)
           = (if b_exists b f w then [Exists f, ReadChunks f n] else [Exists f])
       \<and> (\<not> b_exists b f w \<longrightarrow>
            calls (read_chunks st f n) w = [Exists f] \<and> world_after (read_chunks st f n) w = w)
       \<and> (b_exists b f w \<and> b_read_chunks b f n w = (Inl y, w2) \<longrightarrow>
            outcome (read_chunks st f n) w = Inl (Foreign y)
          \<and> world_after (read_chunks st f n) w = w2
          \<and> calls (read_chunks st f n) w = [Exists f, ReadChunks f n])
       \<and> (b_exists b f w \<and> b_read_chunks b f n w = (Inr g, w2) \<and> encryptor b = None \<longrightarrow>
            outcome (read_chunks st f n) w = Inr g
          \<and> world_after (read_chunks st f n) w = w2
          \<and> calls (read_chunks st f n) w = [Exists f, ReadChunks f n])
       \<and> (b_exists b f w \<and> b_read_chunks b f n w = (Inr g, w2) \<and> encryptor b = Some enc \<longrightarrow>
            outcome (read_chunks st f n) w
              = map_sum Foreign id (fst (decrypt_file_from_generator enc g w2))
          \<and> world_after (read_chunks st f n) w = snd (decrypt_file_from_generator enc g w2)
          \<and> calls (read_chunks st f n) w
              = [Exists f, ReadChunks f n, DecryptFileFromGenerator g])
       \<and> (str_contains mode ''r'' \<longrightarrow>
            ((outcome (open_storage st f mode kw) w = Inl (FileNotFound f)) = (\<not> b_exists b f w))
          \<and> calls (open_storage st f mode kw) w
              = (if b_exists b f w then [Exists f, Open f mode] else [Exists f]))
       \<and> (str_contains mode ''r'' \<and> \<not> b_exists b f w \<longrightarrow>
            world_after (open_storage st f mode kw) w = w)
       \<and> (str_contains mode ''r'' \<and> b_exists b f w \<longrightarrow>
            outcome (open_storage st f mode kw) w = map_sum Foreign id (fst (b_open b f mode kw w))
          \<and> world_after (open_storage st f mode kw) w = snd (b_open b f mode kw w))
       \<and> (\<not> str_contains mode ''r'' \<longrightarrow>
            outcome (open_storage st f mode kw) w = map_sum Foreign id (fst (b_open b f mode kw w))
          \<and> world_after (open_storage st f mode kw) w = snd (b_open b f mode kw w)
          \<and> calls (open_storage st f mode kw) w = [Open f mode])
       \<and> ((outcome (copy st f dst) w = Inl (FileNotFound f)) = (\<not> b_exists b f w))
       \<and> calls (copy st f dst) w
           = (if b_exists b f w then [Exists f, Copy f dst] else [Exists f])
       \<and> (\<not> b_exists b f w \<longrightarrow> world_after (copy st f dst) w = w)
       \<and> (b_exists b f w \<longrightarrow>
            outcome (copy st f dst) w = map_sum Foreign id (fst (b_copy b f dst w))
          \<and> world_after (copy st f dst) w = snd (b_copy b f dst w))"
  using read_checks [OF assms, where f = f and w = w and x = x and ?w1.0 = w1 and d = d
                       and enc = enc]
        read_chunks_checks [OF assms, where f = f and w = w and n = n and x = y and ?w1.0 = w2
                       and g = g and enc = enc]
        open_checks [OF assms, where f = f and w = w and mode = mode and kw = kw]
        copy_checks [OF assms, where f = f and w = w and dst = dst]
  by (elim conjE, intro conjI) assumption+

theorem read_open_copy_check_existence_first_witness:
  "outcome (read (mem_storage None [] Map.empty False) ''gone.txt'') mem0
     = Inl (FileNotFound ''gone.txt'')
   \<and> world_after (read (mem_storage None [] Map.empty False) ''gone.txt'') mem0 = mem0
   \<and> outcome (read (mem_storage None [] Map.empty False) ''kept.txt'') mem0 = Inr ''old''
   \<and> calls (read (mem_storage None [] Map.empty False) ''kept.txt'') mem0
       = [Exists ''kept.txt'', Read ''kept.txt'']
   \<and> calls (open_storage (mem_storage None [] Map.empty False) ''gone.txt'' ''rb'' []) mem0
       = [Exists ''gone.txt'']
   \<and> world_after (open_storage (mem_storage None [] Map.empty False) ''gone.txt'' ''rb'' []) mem0
       = mem0
   \<and> outcome (copy (mem_storage None [] Map.empty False) ''gone.txt'' ''copy.txt'') mem0
       = Inl (FileNotFound ''gone.txt'')
   \<and> world_after (copy (mem_storage None [] Map.empty False) ''gone.txt'' ''copy.txt'') mem0
       = mem0
   \<and> calls (copy (mem_storage None [] Map.empty False) ''kept.txt'' ''copy.txt'') mem0
       = [Exists ''kept.txt'', Copy ''kept.txt'' ''copy.txt'']
   \<and> files (world_after (copy (mem_storage None [] Map.empty False) ''kept.txt'' ''copy.txt'')
        mem0) ''copy.txt'' = Some ''old''"
proof -
  let ?st = "mem_storage None [] Map.empty False"
  let ?b = "mem_backend None ''files'' Map.empty"
  have b: "backend ?st = Some ?b"
    by (simp add: mem_defs)
  have gone: "\<not> b_exists ?b ''gone.txt'' mem0" and kept: "b_exists ?b ''kept.txt'' mem0"
    by (simp_all add: mem_defs)
  have stored: "b_read ?b ''kept.txt'' mem0 = (Inr ''old'', mem0)"
    by (simp add: mem_defs)
  have plain: "encryptor ?b = None"
    by (simp add: mem_defs)
  have copied: "b_copy ?b ''kept.txt'' ''copy.txt'' mem0
                  = (Inr (), mem0\<lparr>files := (files mem0)(''copy.txt'' \<mapsto> ''old'')\<rparr>)"
    by (simp add: mem_defs)
  have r: "str_contains ''rb'' ''r''"
    by simp
  note missing = read_open_copy_check_existence_first
    [OF b, where f = "''gone.txt''" and w = mem0 and mode = "''rb''" and kw = "[]"
       and dst = "''copy.txt''" and x = "[]" and ?w1.0 = mem0 and d = "[]" and enc = mem_encryptor
       and n = 0 and y = "[]" and ?w2.0 = mem0 and g = "[]"]
  note present = read_open_copy_check_existence_first
    [OF b, where f = "''kept.txt''" and w = mem0 and mode = "''rb''" and kw = "[]"
       and dst = "''copy.txt''" and x = "[]" and ?w1.0 = mem0 and d = "''old''"
       and enc = mem_encryptor and n = 0 and y = "[]" and ?w2.0 = mem0 and g = "[]"]
  show ?thesis
    using missing present gone kept stored plain copied r
    by simp
qed

text \<open>
  Claim C10. For a filename the backend reports as non-existent, \<^verbatim>\<open>serve\<close> aborts the
  request with status 404, which is not a \<^verbatim>\<open>FileNotFound\<close> error, after the existence
  query alone; the backend's serve operation is called exactly when the file exists.
\<close>

theorem serve_missing_file_aborts_404:
  assumes "backend st = Some b"
  shows "(\<not> b_exists b filename w \<longrightarrow>
            outcome (serve st filename) w = Inl (Abort 404)
          \<and> calls (serve st filename) w = [Exists filename]
          \<and> world_after (serve st filename) w = w)
       \<and> outcome (serve st filename) w \<noteq> Inl (FileNotFound filename)
       \<and> (Serve filename \<in> set (calls (serve st filename) w) \<longleftrightarrow> b_exists b filename w)
       \<and> (b_exists b filename w \<longrightarrow>
            calls (serve st filename) w = [Exists filename, Serve filename])"
  using assms
  by (auto simp: serve_def action_defs split: prod.splits sum.splits)

theorem serve_missing_file_aborts_404_witness:
  "outcome (serve (mem_storage None [] Map.empty False) ''gone.txt'') mem0 = Inl (Abort 404)
   \<and> calls (serve (mem_storage None [] Map.empty False) ''gone.txt'') mem0 = [Exists ''gone.txt'']
   \<and> calls (serve (mem_storage None [] Map.empty False) ''kept.txt'') mem0
       = [Exists ''kept.txt'', Serve ''kept.txt'']"
  using serve_missing_file_aborts_404
          [of "mem_storage None [] Map.empty False" "mem_backend None ''files'' Map.empty"
              "''gone.txt''" mem0]
        serve_missing_file_aborts_404
          [of "mem_storage None [] Map.empty False" "mem_backend None ''files'' Map.empty"
              "''kept.txt''" mem0]
  by (simp add: mem_defs)

section \<open>Writing\<close>










section \<open>Encryption\<close>

lemma write_content_success:
  assumes "backend st = Some b" "encryptor b = Some enc" "\<not> isfile sys d w"
      and "outcome (write_storage sys st f (Data d) ov) w = Inr ()"
  shows "\<exists>e w1 w2. encrypt_content enc d w = (Inr e, w1)
           \<and> b_write b f (Data e) w1 = (Inr (), w2)
           \<and> world_after (write_storage sys st f (Data d) ov) w = w2"
proof -
  obtain r1 w1 where e1: "encrypt_content enc d w = (r1, w1)"
    by (cases "encrypt_content enc d w")
  show ?thesis
  proof (cases r1)
    case (Inl x)
    then show ?thesis
      using assms e1 by (simp add: write_storage_def action_defs split: if_splits)
  next
    case (Inr e)
    obtain r2 w2 where e2: "b_write b f (Data e) w1 = (r2, w2)"
      by (cases "b_write b f (Data e) w1")
    show ?thesis
      using assms e1 e2 Inr
      by (cases r2) (auto simp: write_storage_def action_defs split: if_splits)
  qed
qed

lemma write_encrypted_file_success:
  assumes "fst (write_encrypted_file sys b enc f src (w, tr)) = Inr ()"
  shows "\<exists>p w1 s w2 w3 w4 w5. encrypt_file enc src w = (Inr p, w1)
           \<and> os_open sys p w1 = (Inr s, w2)
           \<and> b_write b f (FileObj s) w2 = (Inr (), w3)
           \<and> os_close sys p w3 = (Inr (), w4)
           \<and> os_remove sys p w4 = (Inr (), w5)
           \<and> fst (snd (write_encrypted_file sys b enc f src (w, tr))) = w5"
proof -
  obtain r1 w1 where e1: "encrypt_file enc src w = (r1, w1)"
    by (cases "encrypt_file enc src w")
  show ?thesis
  proof (cases r1)
    case (Inl x)
    then show ?thesis
      using assms e1 by (simp add: write_encrypted_file_def action_defs)
  next
    case p: (Inr p)
    obtain r2 w2 where e2: "os_open sys p w1 = (r2, w2)"
      by (cases "os_open sys p w1")
    show ?thesis
    proof (cases r2)
      case (Inl x)
      then show ?thesis
        using assms e1 e2 p by (simp add: write_encrypted_file_def action_defs)
    next
      case s: (Inr s)
      obtain r3 w3 where e3: "b_write b f (FileObj s) w2 = (r3, w3)"
        by (cases "b_write b f (FileObj s) w2")
      obtain r4 w4 where e4: "os_close sys p w3 = (r4, w4)"
        by (cases "os_close sys p w3")
      obtain r5 w5 where e5: "os_remove sys p w4 = (r5, w5)"
        by (cases "os_remove sys p w4")
      show ?thesis
        using assms e1 e2 e3 e4 e5 p s
        by (cases r3; cases r4; cases r5)
           (simp_all add: write_encrypted_file_def action_defs)
    qed
  qed
qed

lemma write_file_branch:
  assumes "backend st = Some b" "encryptor b = Some enc"
      and "src = FileObj d \<or> src = Data d \<and> isfile sys d w"
      and "outcome (write_storage sys st f src ov) w = Inr ()"
  shows "\<exists>tr. write_storage sys st f src ov (w, [])
                = write_encrypted_file sys b enc f src (w, tr)"
  using assms
  by (auto simp: write_storage_def action_defs split: if_splits)

lemma write_file_success:
  assumes "backend st = Some b" "encryptor b = Some enc"
      and "src = FileObj d \<or> src = Data d \<and> isfile sys d w"
      and "outcome (write_storage sys st f src ov) w = Inr ()"
  shows "\<exists>p w1 s w2 w3 w4 w5. encrypt_file enc src w = (Inr p, w1)
           \<and> os_open sys p w1 = (Inr s, w2)
           \<and> b_write b f (FileObj s) w2 = (Inr (), w3)
           \<and> os_close sys p w3 = (Inr (), w4)
           \<and> os_remove sys p w4 = (Inr (), w5)
           \<and> world_after (write_storage sys st f src ov) w = w5"
proof -
  obtain tr where eq: "write_storage sys st f src ov (w, [])
                         = write_encrypted_file sys b enc f src (w, tr)"
    using write_file_branch [OF assms] by blast
  then have "fst (write_encrypted_file sys b enc f src (w, tr)) = Inr ()"
    using assms(4) by (simp add: outcome_def)
  from write_encrypted_file_success [OF this] show ?thesis
    by (simp add: world_after_def eq)
qed

lemma read_decrypts:
  assumes "backend st = Some b" "encryptor b = Some enc"
      and "b_exists b f v" "fst (b_read b f v) = Inr x"
      and "fst (decrypt_entire_file enc x (snd (b_read b f v))) = Inr y"
  shows "outcome (read st f) v = Inr y"
proof -
  obtain v1 where r: "b_read b f v = (Inr x, v1)"
    using assms(4) by (cases "b_read b f v") simp
  obtain v2 where d: "decrypt_entire_file enc x v1 = (Inr y, v2)"
    using assms(5) r by (cases "decrypt_entire_file enc x v1") simp
  show ?thesis
    using assms(1-3) r d by (simp add: read_def action_defs)
qed

text \<open>
  Claim C8. With an encryptor configured, a \<^verbatim>\<open>read\<close> after a successful \<^verbatim>\<open>write\<close> to the
  same path returns the plaintext, decrypted by the facade itself. The assumptions are
  the claim's: the backend returns what it was given to store; decryption undoes
  \<^verbatim>\<open>encrypt_content\<close>, and undoes \<^verbatim>\<open>encrypt_file\<close> in that the bytes of the temporary
  file decrypt to the plaintext \<open>plain\<close> of the source; closing and removing the temporary
  file do not disturb what the backend reports for the path. The first conjunct is the
  in-memory branch, the second the stream or file-path branch.
\<close>

theorem encrypted_write_then_read_returns_plaintext:
  assumes configured: "backend st = Some b" "encryptor b = Some enc"
      and stores: "\<And>g c v v'. b_write b g c v = (Inr (), v') \<Longrightarrow>
                     b_exists b g v' \<and> fst (b_read b g v') = Inr (bytes_of c)"
      and content_inverse: "\<And>x v e v' v''. encrypt_content enc x v = (Inr e, v') \<Longrightarrow>
                     fst (decrypt_entire_file enc e v'') = Inr x"
      and file_inverse: "\<And>p v s v' v''. encrypt_file enc src w = (Inr p, v) \<Longrightarrow>
                     os_open sys p v = (Inr s, v') \<Longrightarrow>
                     fst (decrypt_entire_file enc s v'') = Inr plain"
      and close_frame: "\<And>p v r v'. os_close sys p v = (r, v') \<Longrightarrow>
                     b_exists b f v' = b_exists b f v \<and> fst (b_read b f v') = fst (b_read b f v)"
      and remove_frame: "\<And>p v r v'. os_remove sys p v = (r, v') \<Longrightarrow>
                     b_exists b f v' = b_exists b f v \<and> fst (b_read b f v') = fst (b_read b f v)"
  shows "(\<not> isfile sys d w \<and> outcome (write_storage sys st f (Data d) ov) w = Inr () \<longrightarrow>
            outcome (read st f) (world_after (write_storage sys st f (Data d) ov) w) = Inr d)
       \<and> ((src = FileObj d \<or> src = Data d \<and> isfile sys d w)
            \<and> outcome (write_storage sys st f src ov) w = Inr () \<longrightarrow>
            outcome (read st f) (world_after (write_storage sys st f src ov) w) = Inr plain)"
proof (intro conjI impI)
  assume a: "\<not> isfile sys d w \<and> outcome (write_storage sys st f (Data d) ov) w = Inr ()"
  obtain e w1 w2 where
    enc: "encrypt_content enc d w = (Inr e, w1)" and
    wr: "b_write b f (Data e) w1 = (Inr (), w2)" and
    after: "world_after (write_storage sys st f (Data d) ov) w = w2"
    using write_content_success [OF configured conjunct1 [OF a] conjunct2 [OF a]] by auto
  from stores [OF wr] have "b_exists b f w2" "fst (b_read b f w2) = Inr e" by simp_all
  moreover have "fst (decrypt_entire_file enc e (snd (b_read b f w2))) = Inr d"
    by (rule content_inverse [OF enc])
  ultimately show "outcome (read st f) (world_after (write_storage sys st f (Data d) ov) w) = Inr d"
    unfolding after by (rule read_decrypts [OF configured])
next
  assume a: "(src = FileObj d \<or> src = Data d \<and> isfile sys d w)
            \<and> outcome (write_storage sys st f src ov) w = Inr ()"
  obtain p w1 s w2 w3 w4 w5 where
    ef: "encrypt_file enc src w = (Inr p, w1)" and
    op: "os_open sys p w1 = (Inr s, w2)" and
    wr: "b_write b f (FileObj s) w2 = (Inr (), w3)" and
    cl: "os_close sys p w3 = (Inr (), w4)" and
    rm: "os_remove sys p w4 = (Inr (), w5)" and
    after: "world_after (write_storage sys st f src ov) w = w5"
    using write_file_success [OF configured conjunct1 [OF a] conjunct2 [OF a]] by auto
  from stores [OF wr] have "b_exists b f w3" "fst (b_read b f w3) = Inr s" by simp_all
  with close_frame [OF cl] remove_frame [OF rm]
  have "b_exists b f w5" "fst (b_read b f w5) = Inr s" by simp_all
  moreover have "fst (decrypt_entire_file enc s (snd (b_read b f w5))) = Inr plain"
    by (rule file_inverse [OF ef op])
  ultimately show "outcome (read st f) (world_after (write_storage sys st f src ov) w) = Inr plain"
    unfolding after by (rule read_decrypts [OF configured])
qed


theorem encrypted_write_then_read_returns_plaintext_witness:
  "outcome (write_storage mem_system (mem_storage (Some mem_encryptor) [] Map.empty False)
              ''a.bin'' (Data ''secret'') False) mem0 = Inr ()
   \<and> outcome (read (mem_storage (Some mem_encryptor) [] Map.empty False) ''a.bin'')
       (world_after (write_storage mem_system (mem_storage (Some mem_encryptor) [] Map.empty False)
              ''a.bin'' (Data ''secret'') False) mem0) = Inr ''secret''
   \<and> outcome (write_storage mem_system (mem_storage (Some mem_encryptor) [] Map.empty False)
              ''a.bin'' (FileObj ''secret'') False) mem0 = Inr ()
   \<and> outcome (read (mem_storage (Some mem_encryptor) [] Map.empty False) ''a.bin'')
       (world_after (write_storage mem_system (mem_storage (Some mem_encryptor) [] Map.empty False)
              ''a.bin'' (FileObj ''secret'') False) mem0) = Inr ''secret''"
proof -
  let ?st = "mem_storage (Some mem_encryptor) [] Map.empty False"
  let ?b = "mem_backend (Some mem_encryptor) ''files'' Map.empty"
  have c1: "backend ?st = Some ?b" by (simp add: mem_defs)
  have c2: "encryptor ?b = Some mem_encryptor" by (simp add: mem_defs)
  have stores: "\<And>g c v v'. b_write ?b g c v = (Inr (), v') \<Longrightarrow>
                  b_exists ?b g v' \<and> fst (b_read ?b g v') = Inr (bytes_of c)"
    by (auto simp: mem_defs)
  have ci: "\<And>x v e v' v''. encrypt_content mem_encryptor x v = (Inr e, v') \<Longrightarrow>
                  fst (decrypt_entire_file mem_encryptor e v'') = Inr x"
    by (auto simp: mem_defs)
  have fi: "\<And>p v s v' v''. encrypt_file mem_encryptor (FileObj ''secret'') mem0 = (Inr p, v) \<Longrightarrow>
                  os_open mem_system p v = (Inr s, v') \<Longrightarrow>
                  fst (decrypt_entire_file mem_encryptor s v'') = Inr ''secret''"
    by (auto simp: mem_defs split: if_splits option.splits)
  have cf: "\<And>p v r v'. os_close mem_system p v = (r, v') \<Longrightarrow>
                  b_exists ?b ''a.bin'' v' = b_exists ?b ''a.bin'' v
                \<and> fst (b_read ?b ''a.bin'' v') = fst (b_read ?b ''a.bin'' v)"
    by (auto simp: mem_defs split: option.splits)
  have rf: "\<And>p v r v'. os_remove mem_system p v = (r, v') \<Longrightarrow>
                  b_exists ?b ''a.bin'' v' = b_exists ?b ''a.bin'' v
                \<and> fst (b_read ?b ''a.bin'' v') = fst (b_read ?b ''a.bin'' v)"
    by (auto simp: mem_defs split: option.splits)
  have w1: "outcome (write_storage mem_system ?st ''a.bin'' (Data ''secret'') False) mem0 = Inr ()"
    by (simp add: write_storage_def action_defs mem_defs)
  have w2: "outcome (write_storage mem_system ?st ''a.bin'' (FileObj ''secret'') False) mem0 = Inr ()"
    by (simp add: write_storage_def write_encrypted_file_def action_defs mem_defs)
  have nf: "\<not> isfile mem_system ''secret'' mem0" by (simp add: mem_defs)
  show ?thesis
    using encrypted_write_then_read_returns_plaintext
            [of ?st ?b mem_encryptor "FileObj ''secret''" mem0 mem_system "''secret''"
                "''a.bin''" "''secret''" False, OF c1 c2 stores ci fi cf rf]
          w1 w2 nf
    by simp
qed


section \<open>Configuration precedence\<close>

text \<open>
  Each overlay loop of \<^verbatim>\<open>configure\<close> is a fold that writes the value of every matching
  key under the key's stripped, lower-cased name: a name no matching key produces is left
  alone, a name exactly one key produces ends with that key's value, and a key the loop
  does not match may be dropped from the application configuration.
\<close>

lemma replace_empty_leading:
  assumes "p \<noteq> []"
  shows "replace_empty p (p @ K) = replace_empty p K"
  using assms by (cases p) simp_all

lemma overlay_miss:
  assumes "\<forall>k \<in> set (map fst app). P k \<longrightarrow> g k \<noteq> opt"
  shows "fold (\<lambda>(key, v) c. if P key then c(g key \<mapsto> v) else c) app c opt = c opt"
  using assms
  by (induction app arbitrary: c) (auto split: prod.splits)

lemma overlay_hit:
  assumes "distinct (map fst app)" "map_of app k = Some v" "P k" "g k = opt"
      and "\<forall>k' \<in> set (map fst app). P k' \<and> g k' = opt \<longrightarrow> k' = k"
  shows "fold (\<lambda>(key, v) c. if P key then c(g key \<mapsto> v) else c) app c opt = Some v"
  using assms
proof (induction app arbitrary: c)
  case Nil
  then show ?case by simp
next
  case (Cons e app)
  obtain k1 v1 where e: "e = (k1, v1)" by (cases e)
  show ?case
  proof (cases "k1 = k")
    case True
    have v: "v1 = v"
      using Cons.prems(2) e True by simp
    have fresh: "k \<notin> set (map fst app)"
      using Cons.prems(1) e True by simp
    have "\<forall>k' \<in> set (map fst app). P k' \<longrightarrow> g k' \<noteq> opt"
    proof (intro ballI impI notI)
      fix k' assume "k' \<in> set (map fst app)" "P k'" "g k' = opt"
      then have "k' = k" using Cons.prems(5) by auto
      then show False using fresh \<open>k' \<in> set (map fst app)\<close> by simp
    qed
    from overlay_miss [OF this, of "c(opt \<mapsto> v)"] show ?thesis
      using e True v Cons.prems(3,4) by simp
  next
    case False
    have 1: "distinct (map fst app)" using Cons.prems(1) by simp
    have 2: "map_of app k = Some v" using Cons.prems(2) e False by simp
    have 5: "\<forall>k' \<in> set (map fst app). P k' \<and> g k' = opt \<longrightarrow> k' = k"
      using Cons.prems(5) by auto
    have "fold (\<lambda>(key, v) c. if P key then c(g key \<mapsto> v) else c) app c' opt = Some v" for c'
      by (rule Cons.IH [OF 1 2 Cons.prems(3,4) 5])
    then show ?thesis
      using e by simp
  qed
qed

lemma overlay_skip:
  assumes "\<not> P key"
  shows "fold (\<lambda>(key, v) c. if P key then c(g key \<mapsto> v) else c)
           (filter (\<lambda>e. fst e \<noteq> key) app) c
         = fold (\<lambda>(key, v) c. if P key then c(g key \<mapsto> v) else c) app c"
  using assms
  by (induction app arbitrary: c) (auto split: prod.splits)

lemma map_of_filter_other:
  assumes "k \<noteq> key"
  shows "map_of (filter (\<lambda>e. fst e \<noteq> key) app) k = map_of app k"
  using assms
  by (induction app) auto

lemma defaults_seeded:
  "set_defaults (DEFAULT_CONFIG im) Map.empty opt = map_of (DEFAULT_CONFIG im) opt"
  by (simp add: set_defaults_def DEFAULT_CONFIG_def setdefault_def)

lemma configure_config:
  assumes "lookup_backend_name app (PREFIX (upper (name st)) @ ''BACKEND'') = Inr (Str b)"
      and "registry b = Some backend_class"
  shows "config (snd (configure im registry app st))
           = storage_level (PREFIX (upper (name st))) app
               (backend_level (BACKEND_PREFIX (upper b)) app
                  (set_defaults (DEFAULT_CONFIG im) Map.empty))"
  using assms
  by (simp add: configure_def Let_def)

lemma identity_key_not_FS_BACKEND:
  assumes "k \<in> set BACKEND_EXCLUDED_CONFIG"
  shows "BACKEND_PREFIX B @ k \<noteq> ''FS_BACKEND''"
proof
  assume "BACKEND_PREFIX B @ k = ''FS_BACKEND''"
  then have a: "B @ ''_'' @ k = ''BACKEND''"
    by (simp add: BACKEND_PREFIX_def)
  have "CHR ''_'' \<in> set (B @ ''_'' @ k)"
    by simp
  then have "CHR ''_'' \<in> set ''BACKEND''"
    unfolding a .
  then show False
    by simp
qed

lemma storage_level_hit:
  assumes "distinct (map fst app)" "map_of app (p @ K) = Some v" "p \<noteq> []"
      and "replace_empty p K = K"
      and "\<forall>k \<in> set (map fst app).
             startswith k p \<and> lower (replace_empty p k) = lower K \<longrightarrow> k = p @ K"
  shows "storage_level p app c (lower K) = Some v"
  unfolding storage_level_def
  using assms(1,2) _ _ assms(5)
  by (rule overlay_hit) (simp_all add: startswith_def replace_empty_leading assms(3,4))

lemma storage_level_miss:
  assumes "\<forall>k \<in> set (map fst app). startswith k p \<longrightarrow> lower (replace_empty p k) \<noteq> opt"
  shows "storage_level p app c opt = c opt"
  unfolding storage_level_def
  using assms by (rule overlay_miss)

lemma backend_level_hit:
  assumes "distinct (map fst app)" "map_of app (bp @ K) = Some v" "bp \<noteq> []"
      and "replace_empty bp K = K" "K \<notin> set BACKEND_EXCLUDED_CONFIG"
      and "\<forall>k \<in> set (map fst app).
             (startswith k bp \<and> k \<notin> set (map (\<lambda>k. bp @ k) BACKEND_EXCLUDED_CONFIG))
             \<and> lower (replace_empty bp k) = lower K \<longrightarrow> k = bp @ K"
  shows "backend_level bp app c (lower K) = Some v"
  unfolding backend_level_def
  using assms(1,2) _ _ assms(6)
  by (rule overlay_hit) (use assms(3,4,5) in \<open>auto simp: startswith_def replace_empty_leading\<close>)

lemma backend_level_miss:
  assumes "\<forall>k \<in> set (map fst app).
             startswith k bp \<and> k \<notin> set (map (\<lambda>k. bp @ k) BACKEND_EXCLUDED_CONFIG)
             \<longrightarrow> lower (replace_empty bp k) \<noteq> opt"
  shows "backend_level bp app c opt = c opt"
  unfolding backend_level_def
  using assms by (rule overlay_miss)

lemma PREFIX_nonempty: "PREFIX n \<noteq> []"
  by (simp add: PREFIX_def)

lemma BACKEND_PREFIX_nonempty: "BACKEND_PREFIX n \<noteq> []"
  by (simp add: BACKEND_PREFIX_def)

lemma configure_ignores_identity_key:
  assumes "lookup_backend_name app (PREFIX (upper (name st)) @ ''BACKEND'') = Inr (Str b)"
      and "k \<in> set BACKEND_EXCLUDED_CONFIG"
      and "\<not> startswith (BACKEND_PREFIX (upper b) @ k) (PREFIX (upper (name st)))"
  shows "configure im registry (filter (\<lambda>e. fst e \<noteq> BACKEND_PREFIX (upper b) @ k) app) st
           = configure im registry app st"
proof -
  let ?p = "PREFIX (upper (name st))"
  let ?bp = "BACKEND_PREFIX (upper b)"
  let ?app = "filter (\<lambda>e. fst e \<noteq> ?bp @ k) app"
  have "?p @ ''BACKEND'' \<noteq> ?bp @ k"
    using assms(3) by (metis startswith_def prefixI)
  then have m1: "map_of ?app (?p @ ''BACKEND'') = map_of app (?p @ ''BACKEND'')"
    by (rule map_of_filter_other)
  have "''FS_BACKEND'' \<noteq> ?bp @ k"
    using identity_key_not_FS_BACKEND [OF assms(2), of "upper b"] by simp
  then have m2: "map_of ?app ''FS_BACKEND'' = map_of app ''FS_BACKEND''"
    by (rule map_of_filter_other)
  have name: "lookup_backend_name ?app (?p @ ''BACKEND'')
                = lookup_backend_name app (?p @ ''BACKEND'')"
    unfolding lookup_backend_name_def m1 m2 by (rule refl)
  have "\<not> (startswith (?bp @ k) ?bp
            \<and> ?bp @ k \<notin> set (map (\<lambda>k. ?bp @ k) BACKEND_EXCLUDED_CONFIG))"
    using assms(2) by simp
  then have bl: "backend_level ?bp ?app c = backend_level ?bp app c" for c
    unfolding backend_level_def by (rule overlay_skip)
  have sl: "storage_level ?p ?app c = storage_level ?p app c" for c
    unfolding storage_level_def using assms(3) by (rule overlay_skip)
  show ?thesis
    by (cases "registry b") (simp_all add: configure_def Let_def name assms(1) bl sl)
qed

lemma replace_empty_absent:
  assumes "x \<in> set old" "x \<notin> set s"
  shows "replace_empty old s = s"
  using assms
proof (induction s)
  case Nil
  then show ?case by simp
next
  case (Cons c cs)
  have "\<not> prefix old (c # cs)"
  proof
    assume "prefix old (c # cs)"
    then have "set old \<subseteq> set (c # cs)"
      by (rule set_mono_prefix)
    with Cons.prems show False
      by auto
  qed
  moreover have "replace_empty old cs = cs"
    using Cons by simp
  ultimately show ?case
    by simp
qed

lemma replace_empty_PREFIX:
  assumes "CHR ''_'' \<notin> set K"
  shows "replace_empty (PREFIX n) K = K" and "replace_empty (BACKEND_PREFIX n) K = K"
  using assms
  by (auto intro!: replace_empty_absent [where x = "CHR ''_''"]
           simp: PREFIX_def BACKEND_PREFIX_def)

lemma overlay_keeps_keys:
  assumes "opt \<in> dom c"
  shows "opt \<in> dom (fold (\<lambda>(key, v) c. if P key then c(g key \<mapsto> v) else c) app c)"
  using assms
  by (induction app arbitrary: c) (auto split: prod.splits)

lemma configure_seeds_allow_and_deny:
  assumes "configure im registry app st = (Inr (), st')"
  shows "''allow'' \<in> dom (config st') \<and> ''deny'' \<in> dom (config st')"
proof -
  have seeded: "''allow'' \<in> dom (set_defaults (DEFAULT_CONFIG im) Map.empty)"
               "''deny'' \<in> dom (set_defaults (DEFAULT_CONFIG im) Map.empty)"
    by (simp_all add: set_defaults_def DEFAULT_CONFIG_def setdefault_def)
  have kept: "opt \<in> dom c \<Longrightarrow> opt \<in> dom (storage_level p app (backend_level bp app c))"
    for opt c p bp
    unfolding storage_level_def backend_level_def
    by (intro overlay_keeps_keys)
  obtain b backend_class where
    "config st' = storage_level (PREFIX (upper (name st))) app
                    (backend_level (BACKEND_PREFIX (upper b)) app
                       (set_defaults (DEFAULT_CONFIG im) Map.empty))"
    using assms
    by (auto simp: configure_def Let_def split: sum.splits pyval.splits option.splits)
  then show ?thesis
    using kept [OF seeded(1)] kept [OF seeded(2)] by simp
qed

lemma overlay_as_map:
  "fold (\<lambda>(key, v) c. if P key then c(g key \<mapsto> v) else c) app c
     = c ++ map_of (rev (map (\<lambda>(key, v). (g key, v)) (filter (\<lambda>(key, v). P key) app)))"
proof (induction app arbitrary: c)
  case Nil
  then show ?case by simp
next
  case (Cons e app)
  obtain k v where e: "e = (k, v)" by (cases e)
  show ?case
  proof (cases "P k")
    case True
    let ?m = "map_of (rev (map (\<lambda>(key, v). (g key, v)) (filter (\<lambda>(key, v). P key) app)))"
    have "fold (\<lambda>(key, v) c. if P key then c(g key \<mapsto> v) else c) (e # app) c
            = fold (\<lambda>(key, v) c. if P key then c(g key \<mapsto> v) else c) app (c(g k \<mapsto> v))"
      using e True by simp
    also have "\<dots> = c(g k \<mapsto> v) ++ ?m"
      by (rule Cons.IH)
    also have "\<dots> = c ++ map_of (rev (map (\<lambda>(key, v). (g key, v))
                                       (filter (\<lambda>(key, v). P key) (e # app))))"
      using e True by (simp add: map_add_assoc [symmetric])
    finally show ?thesis .
  next
    case False
    then show ?thesis
      using Cons.IH [of c] e by simp
  qed
qed

lemma configure_layers:
  assumes "lookup_backend_name app (PREFIX (upper (name st)) @ ''BACKEND'') = Inr (Str b)"
      and "registry b = Some backend_class"
  shows "config (snd (configure im registry app st))
           = default_settings im ++ backend_settings (BACKEND_PREFIX (upper b)) app
               ++ storage_settings (PREFIX (upper (name st))) app"
proof -
  have "set_defaults (DEFAULT_CONFIG im) Map.empty = default_settings im"
    by (rule ext) (simp add: set_defaults_def DEFAULT_CONFIG_def setdefault_def default_settings_def)
  then show ?thesis
    using assms
    by (simp add: configure_def Let_def storage_level_def backend_level_def overlay_as_map
          storage_settings_def backend_settings_def)
qed

text \<open>
  Claim C2. For a configuration whose backend name resolves to a registered backend
  (\<open>app\<close> being a dictionary, its keys are distinct), with \<open>p\<close> the storage prefix
  \<^verbatim>\<open>{STORAGE}_FS_\<close> and \<open>bp\<close> the backend prefix \<^verbatim>\<open>FS_{BACKEND}_\<close>:
  \<^item> the effective configuration is the defaults, overridden by the backend-level
    settings, overridden by the storage-level settings;
  \<^item> an option \<open>K\<close> set at storage level (under \<open>p @ K\<close>) has its storage-level value
    under the lower-cased name, whatever the backend level and the defaults say;
  \<^item> with no storage-level key for the option, an option set at backend level (under
    \<open>bp @ K\<close>, \<open>K\<close> not an identity key) has its backend-level value;
  \<^item> with neither, the option has its seeded default (and none when there is no default);
  \<^item> the identity keys \<open>bp @ BACKEND\<close>, \<open>bp @ URL\<close> and \<open>bp @ ROOT\<close> are not inherited:
    unless such a key is a storage-level key as well, \<^verbatim>\<open>configure\<close> does the same with
    and without it.
  ``The key for an option'' is read as the code reads it: at each level the option is
  spelled by one key only (no second key strips and lower-cases to the same name), and
  the option name does not contain the prefix, which \<^verbatim>\<open>replace\<close> would strip too
  (no name without an underscore does, \<open>ALLOW\<close> and \<open>DENY\<close> among them).
\<close>

theorem configure_precedence:
  fixes st :: "'w storage"
    and registry :: "string \<rightharpoonup> (string \<Rightarrow> config \<Rightarrow> 'w backend)"
    and app :: "(string \<times> pyval) list" and im :: imported and b :: string
  defines "p \<equiv> PREFIX (upper (name st))"
  assumes resolved: "lookup_backend_name app (p @ ''BACKEND'') = Inr (Str b)"
      and registered: "registry b = Some backend_class"
      and keys: "distinct (map fst app)"
  defines "bp \<equiv> BACKEND_PREFIX (upper b)"
      and "cfg \<equiv> config (snd (configure im registry app st))"
  shows "cfg = default_settings im ++ backend_settings bp app ++ storage_settings p app
       \<and> (map_of app (p @ K) = Some vs \<and> replace_empty p K = K
            \<and> (\<forall>k \<in> set (map fst app).
                  startswith k p \<and> lower (replace_empty p k) = lower K \<longrightarrow> k = p @ K) \<longrightarrow>
            cfg (lower K) = Some vs)
       \<and> ((\<forall>k \<in> set (map fst app). startswith k p \<longrightarrow> lower (replace_empty p k) \<noteq> lower K)
            \<and> map_of app (bp @ K) = Some vb \<and> replace_empty bp K = K
            \<and> K \<notin> set BACKEND_EXCLUDED_CONFIG
            \<and> (\<forall>k \<in> set (map fst app).
                  (startswith k bp \<and> k \<notin> set (map (\<lambda>k. bp @ k) BACKEND_EXCLUDED_CONFIG))
                  \<and> lower (replace_empty bp k) = lower K \<longrightarrow> k = bp @ K) \<longrightarrow>
            cfg (lower K) = Some vb)
       \<and> ((\<forall>k \<in> set (map fst app). startswith k p \<longrightarrow> lower (replace_empty p k) \<noteq> opt)
            \<and> (\<forall>k \<in> set (map fst app).
                  startswith k bp \<and> k \<notin> set (map (\<lambda>k. bp @ k) BACKEND_EXCLUDED_CONFIG)
                  \<longrightarrow> lower (replace_empty bp k) \<noteq> opt) \<longrightarrow>
            cfg opt = map_of (DEFAULT_CONFIG im) opt)
       \<and> (ik \<in> set BACKEND_EXCLUDED_CONFIG \<and> \<not> startswith (bp @ ik) p \<longrightarrow>
            configure im registry (filter (\<lambda>e. fst e \<noteq> bp @ ik) app) st
              = configure im registry app st)"
proof -
  have cfg: "cfg = storage_level p app (backend_level bp app
                     (set_defaults (DEFAULT_CONFIG im) Map.empty))"
    unfolding cfg_def p_def bp_def
    using resolved registered unfolding p_def by (rule configure_config)
  have p: "p \<noteq> []" and bp: "bp \<noteq> []"
    by (simp_all add: p_def bp_def PREFIX_nonempty BACKEND_PREFIX_nonempty)
  show ?thesis
  proof (intro conjI impI)
    show "cfg = default_settings im ++ backend_settings bp app ++ storage_settings p app"
      unfolding cfg_def p_def bp_def
      using resolved registered unfolding p_def by (rule configure_layers)
  next
    assume "map_of app (p @ K) = Some vs \<and> replace_empty p K = K
            \<and> (\<forall>k \<in> set (map fst app).
                  startswith k p \<and> lower (replace_empty p k) = lower K \<longrightarrow> k = p @ K)"
    then show "cfg (lower K) = Some vs"
      unfolding cfg using keys p by (intro storage_level_hit) blast+
  next
    assume a: "(\<forall>k \<in> set (map fst app). startswith k p \<longrightarrow> lower (replace_empty p k) \<noteq> lower K)
            \<and> map_of app (bp @ K) = Some vb \<and> replace_empty bp K = K
            \<and> K \<notin> set BACKEND_EXCLUDED_CONFIG
            \<and> (\<forall>k \<in> set (map fst app).
                  (startswith k bp \<and> k \<notin> set (map (\<lambda>k. bp @ k) BACKEND_EXCLUDED_CONFIG))
                  \<and> lower (replace_empty bp k) = lower K \<longrightarrow> k = bp @ K)"
    then have "cfg (lower K) = backend_level bp app
                 (set_defaults (DEFAULT_CONFIG im) Map.empty) (lower K)"
      unfolding cfg by (intro storage_level_miss) blast
    also have "\<dots> = Some vb"
      using a keys bp by (intro backend_level_hit) blast+
    finally show "cfg (lower K) = Some vb" .
  next
    assume a: "(\<forall>k \<in> set (map fst app). startswith k p \<longrightarrow> lower (replace_empty p k) \<noteq> opt)
            \<and> (\<forall>k \<in> set (map fst app).
                  startswith k bp \<and> k \<notin> set (map (\<lambda>k. bp @ k) BACKEND_EXCLUDED_CONFIG)
                  \<longrightarrow> lower (replace_empty bp k) \<noteq> opt)"
    then have "cfg opt = backend_level bp app (set_defaults (DEFAULT_CONFIG im) Map.empty) opt"
      unfolding cfg by (intro storage_level_miss) blast
    also have "\<dots> = set_defaults (DEFAULT_CONFIG im) Map.empty opt"
      using a by (intro backend_level_miss) blast
    finally show "cfg opt = map_of (DEFAULT_CONFIG im) opt"
      by (simp add: defaults_seeded)
  next
    assume "ik \<in> set BACKEND_EXCLUDED_CONFIG \<and> \<not> startswith (bp @ ik) p"
    then show "configure im registry (filter (\<lambda>e. fst e \<noteq> bp @ ik) app) st
              = configure im registry app st"
      unfolding bp_def p_def
      using resolved [unfolded p_def] by (intro configure_ignores_identity_key) blast+
  qed
qed

theorem configure_precedence_witness:
  "config (snd (configure (imported_spec [''txt'']) [''mem'' \<mapsto> mem_backend None]
       [(''FS_BACKEND'', Str ''mem''), (''FS_MEM_ALLOW'', Tuple [''b'']),
        (''FS_MEM_URL'', Str ''http://x''), (''FILES_FS_ALLOW'', Tuple [''s''])]
       (Storage ''files'' [''png''] None False))) ''allow'' = Some (Tuple [''s''])
   \<and> config (snd (configure (imported_spec [''txt'']) [''mem'' \<mapsto> mem_backend None]
       [(''FS_BACKEND'', Str ''mem''), (''FS_MEM_ALLOW'', Tuple [''b'']),
        (''FS_MEM_URL'', Str ''http://x'')]
       (Storage ''files'' [''png''] None False))) ''allow'' = Some (Tuple [''b''])
   \<and> config (snd (configure (imported_spec [''txt'']) [''mem'' \<mapsto> mem_backend None]
       [(''FS_BACKEND'', Str ''mem''), (''FS_MEM_URL'', Str ''http://x'')]
       (Storage ''files'' [''png''] None False))) ''allow'' = Some (Tuple [''txt''])
   \<and> config (snd (configure (imported_spec [''txt'']) [''mem'' \<mapsto> mem_backend None]
       [(''FS_BACKEND'', Str ''mem''), (''FS_MEM_ALLOW'', Tuple [''b'']),
        (''FS_MEM_URL'', Str ''http://x''), (''FILES_FS_ALLOW'', Tuple [''s''])]
       (Storage ''files'' [''png''] None False))) ''url'' = None
   \<and> configure (imported_spec [''txt'']) [''mem'' \<mapsto> mem_backend None]
       (filter (\<lambda>e. fst e \<noteq> ''FS_MEM_URL'')
          [(''FS_BACKEND'', Str ''mem''), (''FS_MEM_ALLOW'', Tuple [''b'']),
           (''FS_MEM_URL'', Str ''http://x''), (''FILES_FS_ALLOW'', Tuple [''s''])])
       (Storage ''files'' [''png''] None False)
     = configure (imported_spec [''txt'']) [''mem'' \<mapsto> mem_backend None]
       [(''FS_BACKEND'', Str ''mem''), (''FS_MEM_ALLOW'', Tuple [''b'']),
        (''FS_MEM_URL'', Str ''http://x''), (''FILES_FS_ALLOW'', Tuple [''s''])]
       (Storage ''files'' [''png''] None False)"
proof -
  let ?st = "Storage ''files'' [''png''] None False :: mem storage"
  let ?reg = "[''mem'' \<mapsto> mem_backend None]"
  let ?im = "imported_spec [''txt'']"
  let ?app3 = "[(''FS_BACKEND'', Str ''mem''), (''FS_MEM_ALLOW'', Tuple [''b'']),
        (''FS_MEM_URL'', Str ''http://x''), (''FILES_FS_ALLOW'', Tuple [''s''])]"
  let ?app2 = "[(''FS_BACKEND'', Str ''mem''), (''FS_MEM_ALLOW'', Tuple [''b'']),
        (''FS_MEM_URL'', Str ''http://x'')]"
  let ?app1 = "[(''FS_BACKEND'', Str ''mem''), (''FS_MEM_URL'', Str ''http://x'')]"
  have p: "PREFIX (upper (name ?st)) = ''FILES_FS_''"
    by (simp add: PREFIX_def upper_def upper_char_def Storage_def)
  have bp: "BACKEND_PREFIX (upper ''mem'') = ''FS_MEM_''"
    by (simp add: BACKEND_PREFIX_def upper_def upper_char_def)
  have low: "lower ''ALLOW'' = ''allow''" "lower ''URL'' = ''url''"
    by (simp_all add: lower_def lower_char_def)
  have reg: "?reg ''mem'' = Some (mem_backend None)"
    by simp
  have r3: "lookup_backend_name ?app3 (PREFIX (upper (name ?st)) @ ''BACKEND'') = Inr (Str ''mem'')"
    and r2: "lookup_backend_name ?app2 (PREFIX (upper (name ?st)) @ ''BACKEND'') = Inr (Str ''mem'')"
    and r1: "lookup_backend_name ?app1 (PREFIX (upper (name ?st)) @ ''BACKEND'') = Inr (Str ''mem'')"
    by (simp_all add: lookup_backend_name_def p)
  have d3: "distinct (map fst ?app3)" and d2: "distinct (map fst ?app2)"
    and d1: "distinct (map fst ?app1)"
    by simp_all
  note t3 = configure_precedence
    [where registry = ?reg and b = "''mem''" and im = ?im and K = "''ALLOW''"
       and vs = "Tuple [''s'']" and opt = "''url''" and ik = "''URL''",
     OF r3 reg d3, unfolded p bp low]
  note t2 = configure_precedence
    [where registry = ?reg and b = "''mem''" and im = ?im and K = "''ALLOW''"
       and vb = "Tuple [''b'']", OF r2 reg d2, unfolded p bp low]
  note t1 = configure_precedence
    [where registry = ?reg and b = "''mem''" and im = ?im and opt = "''allow''",
     OF r1 reg d1, unfolded p bp low]
  have 1: "config (snd (configure ?im ?reg ?app3 ?st)) ''allow'' = Some (Tuple [''s''])"
    by (rule t3 [THEN conjunct2, THEN conjunct1, THEN mp])
       (simp add: startswith_def lower_def lower_char_def)
  have 2: "config (snd (configure ?im ?reg ?app2 ?st)) ''allow'' = Some (Tuple [''b''])"
    by (rule t2 [THEN conjunct2, THEN conjunct2, THEN conjunct1, THEN mp])
       (simp add: startswith_def lower_def lower_char_def BACKEND_EXCLUDED_CONFIG_def)
  have 3: "config (snd (configure ?im ?reg ?app1 ?st)) ''allow'' = Some (Tuple [''txt''])"
    using t1 [THEN conjunct2, THEN conjunct2, THEN conjunct2, THEN conjunct1]
    by (simp add: startswith_def lower_def lower_char_def BACKEND_EXCLUDED_CONFIG_def
          DEFAULT_CONFIG_def imported_spec_def)
  have 4: "config (snd (configure ?im ?reg ?app3 ?st)) ''url'' = None"
    using t3 [THEN conjunct2, THEN conjunct2, THEN conjunct2, THEN conjunct1]
    by (simp add: startswith_def lower_def lower_char_def BACKEND_EXCLUDED_CONFIG_def
          DEFAULT_CONFIG_def imported_spec_def)
  have 5: "configure ?im ?reg (filter (\<lambda>e. fst e \<noteq> ''FS_MEM_URL'') ?app3) ?st
             = configure ?im ?reg ?app3 ?st"
    using t3 [THEN conjunct2, THEN conjunct2, THEN conjunct2, THEN conjunct2]
    by (simp add: startswith_def BACKEND_EXCLUDED_CONFIG_def)
  show ?thesis
    using 1 2 3 4 5 by simp
qed

section \<open>Temporary files of the encrypted stream branch\<close>

text \<open>
  When \<^verbatim>\<open>open\<close> succeeds (and \<^verbatim>\<open>close\<close> does), the \<^verbatim>\<open>finally\<close> block removes the
  temporary file whatever the backend's write did. When \<^verbatim>\<open>open\<close> raises, the block stops
  at the unbound \<^verbatim>\<open>read_stream\<close> and the file is kept.
\<close>

lemma write_encrypted_file_removes_when_opened:
  assumes "encrypt_file enc c w = (Inr p, w1)" "os_open sys p w1 = (Inr s, w2)"
      and "b_write b f (FileObj s) w2 = (r, w3)" "os_close sys p w3 = (Inr (), w4)"
  shows "snd (snd (write_encrypted_file sys b enc f c (w, tr)))
           = tr @ [EncryptFile c, OsOpen p, Write f (FileObj s), OsClose p, OsRemove p]"
  using assms
  by (cases r; cases "os_remove sys p w4"; cases "fst (os_remove sys p w4)")
     (auto simp: write_encrypted_file_def action_defs)

lemma write_encrypted_file_keeps_when_open_fails:
  assumes "encrypt_file enc c w = (Inr p, w1)" "os_open sys p w1 = (Inl x, w2)"
  shows "write_encrypted_file sys b enc f c (w, tr)
           = (Inl (UnboundLocalError ''read_stream''), (w2, tr @ [EncryptFile c, OsOpen p]))"
  using assms
  by (simp add: write_encrypted_file_def action_defs)

text \<open>
  Claim C9. The temporary encrypted file is to be deleted on every exit path of
  \<^verbatim>\<open>write\<close>. It is not when \<^verbatim>\<open>open\<close> on the temporary path raises: with no file
  descriptor left, writing a stream through an encrypting storage ends in
  \<^verbatim>\<open>UnboundLocalError\<close>, \<^verbatim>\<open>os.remove\<close> is never called, and the temporary file, holding
  the encrypted bytes, is still on disk.
\<close>

theorem write_leaves_temporary_file_when_open_fails:
  "outcome (write_storage mem_system (mem_storage (Some mem_encryptor) [] Map.empty False)
              ''a.bin'' (FileObj ''secret'') False) (mem0\<lparr>fds := 0\<rparr>)
     = Inl (UnboundLocalError ''read_stream'')
   \<and> calls (write_storage mem_system (mem_storage (Some mem_encryptor) [] Map.empty False)
              ''a.bin'' (FileObj ''secret'') False) (mem0\<lparr>fds := 0\<rparr>)
       = [Exists ''a.bin'', EncryptFile (FileObj ''secret''), OsOpen ''/tmp/enc'']
   \<and> disk (world_after (write_storage mem_system
              (mem_storage (Some mem_encryptor) [] Map.empty False)
              ''a.bin'' (FileObj ''secret'') False) (mem0\<lparr>fds := 0\<rparr>)) ''/tmp/enc''
       = Some ''terces''"
  by (simp add: write_storage_def write_encrypted_file_def action_defs mem_defs)

section \<open>Unknown backends\<close>

text \<open>
  Claim C6, as stated: an unregistered backend name makes \<^verbatim>\<open>configure\<close> fail with
  \<^verbatim>\<open>ConfigurationError\<close>. The code raises \<^verbatim>\<open>ValueError\<close>; and when the global
  \<^verbatim>\<open>FS_BACKEND\<close> is missing it raises \<^verbatim>\<open>KeyError\<close> before the registry is consulted,
  storage-level key or not.
\<close>

theorem configure_unknown_backend_counterexample:
  "fst (configure (imported_spec []) [''mem'' \<mapsto> mem_backend None]
          [(''FS_BACKEND'', Str ''mem''), (''FILES_FS_BACKEND'', Str ''nope'')]
          (Storage ''files'' [] None False))
     = Inl (ValueError (unknown_backend ''nope''))
   \<and> \<not> is_ConfigurationError
        (fst (configure (imported_spec []) [''mem'' \<mapsto> mem_backend None]
                [(''FS_BACKEND'', Str ''mem''), (''FILES_FS_BACKEND'', Str ''nope'')]
                (Storage ''files'' [] None False)))
   \<and> fst (configure (imported_spec []) [''mem'' \<mapsto> mem_backend None]
          [(''FILES_FS_BACKEND'', Str ''nope'')]
          (Storage ''files'' [] None False))
     = Inl (KeyError ''FS_BACKEND'')"
  by (simp add: configure_def lookup_backend_name_def Storage_def PREFIX_def upper_def
        upper_char_def Let_def)

text \<open>
  Claim C6, amended. With \<^verbatim>\<open>FS_BACKEND\<close> set and the resolved backend name (the value
  of \<^verbatim>\<open>{STORAGE}_FS_BACKEND\<close>, else of \<^verbatim>\<open>FS_BACKEND\<close>) a string that the registry does not
  hold, \<^verbatim>\<open>configure\<close> fails with \<^verbatim>\<open>ValueError\<close> (``Unknown backend "name"''), at
  configure time: the storage's backend and configuration stay as they were, so a
  storage that had no backend still has none and a read on it reaches no backend.
\<close>

theorem configure_unknown_backend:
  assumes "lookup_backend_name app (PREFIX (upper (name st)) @ ''BACKEND'') = Inr (Str b)"
      and "registry b = None"
  shows "fst (configure im registry app st) = Inl (ValueError (unknown_backend b))
       \<and> backend (snd (configure im registry app st)) = backend st
       \<and> config (snd (configure im registry app st)) = config st
       \<and> (backend st = None \<longrightarrow>
            outcome (read (snd (configure im registry app st)) f) w
              = Inl (AttributeError ''exists'')
          \<and> calls (read (snd (configure im registry app st)) f) w = [])"
  using assms
  by (simp add: configure_def Let_def read_def with_backend_def outcome_def calls_def raise_def)

theorem configure_unknown_backend_witness:
  "fst (configure (imported_spec []) [''mem'' \<mapsto> mem_backend None]
          [(''FS_BACKEND'', Str ''nope'')] (Storage ''files'' [] None False))
     = Inl (ValueError (unknown_backend ''nope''))
   \<and> backend (snd (configure (imported_spec []) [''mem'' \<mapsto> mem_backend None]
          [(''FS_BACKEND'', Str ''nope'')] (Storage ''files'' [] None False))) = None
   \<and> calls (read (snd (configure (imported_spec []) [''mem'' \<mapsto> mem_backend None]
          [(''FS_BACKEND'', Str ''nope'')] (Storage ''files'' [] None False))) ''kept.txt'') mem0
       = []"
proof -
  have 1: "lookup_backend_name [(''FS_BACKEND'', Str ''nope'')]
             (PREFIX (upper (name (Storage ''files'' [] None False :: mem storage))) @ ''BACKEND'')
           = Inr (Str ''nope'')"
    by (simp add: lookup_backend_name_def Storage_def PREFIX_def upper_def upper_char_def)
  have 2: "[''mem'' \<mapsto> mem_backend None] ''nope'' = None"
    by simp
  have 3: "backend (Storage ''files'' [] None False :: mem storage) = None"
    by (simp add: Storage_def)
  show ?thesis
    using configure_unknown_backend
            [where registry = "[''mem'' \<mapsto> mem_backend None]" and b = "''nope''"
               and im = "imported_spec []" and f = "''kept.txt''" and w = mem0, OF 1 2] 3
    by simp
qed

section \<open>Filenames derived from the client's\<close>

text \<open>
  Claim C7, as stated: saving a \<^verbatim>\<open>FileStorage\<close> that declares \<^verbatim>\<open>Report.PDF\<close>, with no
  filename given, stores under and returns \<^verbatim>\<open>report.pdf\<close>. Only the extension is
  lower-cased: the path is \<^verbatim>\<open>Report.pdf\<close>, and nothing is stored under \<^verbatim>\<open>report.pdf\<close>.
\<close>

theorem save_report_pdf_counterexample:
  "outcome (save (imported_spec [])
      (mem_storage None [''pdf''] [''allow'' \<mapsto> Tuple [], ''deny'' \<mapsto> Tuple []] False)
      (FileStorage (Some ''Report.PDF'') ''%PDF'') None None None) mem0 = Inr ''Report.pdf''
   \<and> outcome (save (imported_spec [])
      (mem_storage None [''pdf''] [''allow'' \<mapsto> Tuple [], ''deny'' \<mapsto> Tuple []] False)
      (FileStorage (Some ''Report.PDF'') ''%PDF'') None None None) mem0 \<noteq> Inr ''report.pdf''
   \<and> files (world_after (save (imported_spec [])
      (mem_storage None [''pdf''] [''allow'' \<mapsto> Tuple [], ''deny'' \<mapsto> Tuple []] False)
      (FileStorage (Some ''Report.PDF'') ''%PDF'') None None None) mem0) ''report.pdf'' = None"
  by (simp add: save_def outcome_def world_after_def return_def raise_def bind_def invoke_def
        query_def with_backend_def lift_def exists_def mem_storage_def mem_backend_def mem0_def
        falsy_def file_allowed_def extension_allowed_def getattr_def imported_spec_def
        extension_spec_def lower_extension_spec_def secure_filename_spec_def strip_chars_def
        filename_safe_char_def is_space_def lower_def lower_char_def prepend_def Let_def)

lemma report_pdf_name:
  "lower_extension_spec (secure_filename_spec ''Report.PDF'') = ''Report.pdf''"
  by (simp add: lower_extension_spec_def secure_filename_spec_def extension_spec_def
        strip_chars_def filename_safe_char_def is_space_def lower_def lower_char_def)

lemma report_pdf_extension: "extension_spec ''Report.pdf'' = ''pdf''"
  by (simp add: extension_spec_def)

text \<open>
  Claim C7, amended. On a configured storage that allows \<^verbatim>\<open>pdf\<close>, with no prefix and
  no upload destination, and overwriting allowed or no file at that path, saving a
  \<^verbatim>\<open>FileStorage\<close> that declares \<^verbatim>\<open>Report.PDF\<close> with no filename given hands the backend
  the path \<^verbatim>\<open>Report.pdf\<close> and returns it: extension lower-cased, basename as it was.
\<close>

theorem save_report_pdf:
  assumes "backend st = Some b"
      and "extension_allowed st ''pdf'' = Inr True"
      and "upload_to st = None"
      and "(case ov of None \<Rightarrow> overwrite st | Some v \<Rightarrow> v) \<or> \<not> b_exists b ''Report.pdf'' w"
      and "b_save b (FileStorage (Some ''Report.PDF'') payload) ''Report.pdf'' w = (Inr (), w')"
  shows "outcome (save (imported_spec defaults) st (FileStorage (Some ''Report.PDF'') payload)
                    None None ov) w = Inr ''Report.pdf''
       \<and> last (calls (save (imported_spec defaults) st (FileStorage (Some ''Report.PDF'') payload)
                    None None ov) w)
           = Save (FileStorage (Some ''Report.PDF'') payload) ''Report.pdf''
       \<and> world_after (save (imported_spec defaults) st (FileStorage (Some ''Report.PDF'') payload)
                    None None ov) w = w'"
  using assms
  by (auto simp: save_def action_defs falsy_def file_allowed_def imported_spec_def
        report_pdf_name report_pdf_extension prepend_def Let_def)

theorem save_report_pdf_witness:
  "outcome (save (imported_spec [])
      (mem_storage None [''pdf''] [''allow'' \<mapsto> Tuple [], ''deny'' \<mapsto> Tuple []] False)
      (FileStorage (Some ''Report.PDF'') ''%PDF'') None None None) mem0 = Inr ''Report.pdf''
   \<and> files (world_after (save (imported_spec [])
      (mem_storage None [''pdf''] [''allow'' \<mapsto> Tuple [], ''deny'' \<mapsto> Tuple []] False)
      (FileStorage (Some ''Report.PDF'') ''%PDF'') None None None) mem0) ''Report.pdf''
     = Some ''%PDF''"
proof -
  let ?cfg = "[''allow'' \<mapsto> Tuple [], ''deny'' \<mapsto> Tuple []]"
  let ?st = "mem_storage None [''pdf''] ?cfg False"
  let ?b = "mem_backend None ''files'' ?cfg"
  let ?src = "FileStorage (Some ''Report.PDF'') ''%PDF''"
  have 1: "backend ?st = Some ?b" by (simp add: mem_defs)
  have 2: "extension_allowed ?st ''pdf'' = Inr True"
    by (simp add: extension_allowed_def getattr_def mem_defs)
  have 3: "upload_to ?st = None" by (simp add: mem_defs)
  have 4: "(case None of None \<Rightarrow> overwrite ?st | Some v \<Rightarrow> v) \<or> \<not> b_exists ?b ''Report.pdf'' mem0"
    by (simp add: mem_defs)
  have 5: "b_save ?b ?src ''Report.pdf'' mem0
             = (Inr (), mem0\<lparr>files := (files mem0)(''Report.pdf'' \<mapsto> ''%PDF'')\<rparr>)"
    by (simp add: mem_defs)
  show ?thesis
    using save_report_pdf [OF 1 2 3 4 5, of "[]"] by simp
qed

end
